theory Spec2Isabelle
  imports
    Complex_Main
    "HOL-Library.Product_Lexorder"
    "HOL-Library.Char_ord"
    "HOL-Library.List_Lexorder"
begin

section \<open>Portfolio metrics engine: the model\<close>

text \<open>
  A shallow embedding of \<^verbatim>\<open>portfolio_metrics_engine.py\<close>.

  Conventions of the model.
  \<^item> A Python \<^verbatim>\<open>float\<close> is the number it stands for (\<^typ>\<open>real\<close>), and the model
    computes with exact numbers. What the code itself rounds, the eight fraction digits of
    \<^verbatim>\<open>_format_decimal\<close>, is modelled exactly. The binary rounding of \<^verbatim>\<open>float()\<close> and of
    each arithmetic operation, the special values \<^verbatim>\<open>inf\<close> and \<^verbatim>\<open>nan\<close> and the negative
    zero are outside the model. The properties proved below are chosen so that they do not
    rest on that: they are about the control flow, about signs and comparisons, which
    rounding to the nearest float keeps, about the text of numbers that come from the input
    and are not zero, and, where the rounding of \<^verbatim>\<open>float()\<close> matters, about every number
    that is nearest to the decimal read (\<open>nearest_in\<close> below).
  \<^item> A Python \<^verbatim>\<open>str\<close> is a \<^typ>\<open>string\<close>; its characters are the code points below 256.
  \<^item> An exception that leaves \<^verbatim>\<open>update_portfolio\<close> is a value \<open>Inl e\<close>.
  \<^item> A file is \<open>None\<close> when it does not exist. The trade file is the list of its lines,
    the portfolio CSV the list of its rows (the \<^verbatim>\<open>csv\<close> module is taken to read back
    the rows it wrote).
  \<^item> A leading underscore of a Python name is dropped.
\<close>

subsection \<open>Python's string primitives\<close>

datatype error = ValueError | IndexError

definition bind_err :: "error + 'a \<Rightarrow> ('a \<Rightarrow> error + 'b) \<Rightarrow> error + 'b" where
  "bind_err m f = (case m of Inl e \<Rightarrow> Inl e | Inr x \<Rightarrow> f x)"

text \<open>\<^verbatim>\<open>str.isspace\<close> on the code points below 256.\<close>

definition is_space :: "char \<Rightarrow> bool" where
  "is_space c =
     (let n = (of_char c :: nat)
      in (9 \<le> n \<and> n \<le> 13) \<or> (28 \<le> n \<and> n \<le> 32) \<or> n = 133 \<or> n = 160)"

definition strip :: "string \<Rightarrow> string" where
  "strip s = rev (dropWhile is_space (rev (dropWhile is_space s)))"

text \<open>\<^verbatim>\<open>s.replace(a, b)\<close> for one-character \<open>a\<close> and \<open>b\<close>.\<close>

definition replace :: "char \<Rightarrow> char \<Rightarrow> string \<Rightarrow> string" where
  "replace a b s = map (\<lambda>c. if c = a then b else c) s"

text \<open>\<^verbatim>\<open>s.split(sep)\<close> for a one-character separator: never an empty list.\<close>

fun split :: "char \<Rightarrow> string \<Rightarrow> string list" where
  "split sep [] = [[]]"
| "split sep (c # cs) =
     (if c = sep then [] # split sep cs
      else (case split sep cs of [] \<Rightarrow> [[c]] | f # fs \<Rightarrow> (c # f) # fs))"

definition is_digit :: "char \<Rightarrow> bool" where
  "is_digit c = (48 \<le> (of_char c :: nat) \<and> (of_char c :: nat) \<le> 57)"

definition digit_val :: "char \<Rightarrow> nat" where
  "digit_val c = of_char c - 48"

definition digit_char :: "nat \<Rightarrow> char" where
  "digit_char n = ''0123456789'' ! n"

definition nat_of_digits :: "string \<Rightarrow> nat" where
  "nat_of_digits ds = foldl (\<lambda>acc c. 10 * acc + digit_val c) 0 ds"

fun nat_digits :: "nat \<Rightarrow> string" where
  "nat_digits n =
     (if n < 10 then [digit_char n] else nat_digits (n div 10) @ [digit_char (n mod 10)])"

declare nat_digits.simps [simp del]

text \<open>The last \<open>k\<close> decimal digits of \<open>n\<close>, zero-padded.\<close>

fun fixed_digits :: "nat \<Rightarrow> nat \<Rightarrow> string" where
  "fixed_digits 0 n = []"
| "fixed_digits (Suc k) n = fixed_digits k (n div 10) @ [digit_char (n mod 10)]"

subsection \<open>Decimal text and numbers\<close>

text \<open>
  \<^verbatim>\<open>float(s)\<close> on a plain decimal literal: optional surrounding whitespace, an optional
  sign, digits with an optional point, at least one digit. Anything else is a
  \<^verbatim>\<open>ValueError\<close>. Python also accepts an exponent, digit-grouping underscores and the
  spellings of infinity and nan; the model rejects them.
\<close>

definition py_float :: "string \<Rightarrow> error + real" where
  "py_float s =
     (let t = strip s;
          neg = (t \<noteq> [] \<and> hd t = CHR ''-'');
          u = (if t \<noteq> [] \<and> (hd t = CHR ''-'' \<or> hd t = CHR ''+'') then tl t else t);
          ip = takeWhile is_digit u;
          r = dropWhile is_digit u;
          sg = (if neg then - 1 else 1 :: real)
      in case r of
           [] \<Rightarrow> if ip = [] then Inl ValueError else Inr (sg * of_nat (nat_of_digits ip))
         | c # fp \<Rightarrow>
             if c = CHR ''.'' \<and> list_all is_digit fp \<and> (ip \<noteq> [] \<or> fp \<noteq> [])
             then Inr (sg * (of_nat (nat_of_digits ip)
                             + of_nat (nat_of_digits fp) / 10 ^ length fp))
             else Inl ValueError)"

text \<open>Rounding to the nearest integer, ties to even, as the float formatter rounds.\<close>

definition round_half_even :: "real \<Rightarrow> int" where
  "round_half_even x =
     (let f = \<lfloor>x\<rfloor>; d = x - of_int f
      in if d < 1 / 2 then f else if 1 / 2 < d then f + 1
         else if even f then f else f + 1)"

text \<open>The magnitude of \<open>x\<close> in units of \<open>10\<^sup>-\<^sup>8\<close>, rounded.\<close>

definition quantize8 :: "real \<Rightarrow> nat" where
  "quantize8 x = nat (round_half_even (\<bar>x\<bar> * 10 ^ 8))"

text \<open>\<^verbatim>\<open>f"{value:.8f}"\<close>\<close>

definition py_format_8f :: "real \<Rightarrow> string" where
  "py_format_8f x =
     (let n = quantize8 x
      in (if x < 0 then ''-'' else '''') @ nat_digits (n div 10 ^ 8) @ ''.''
         @ fixed_digits 8 (n mod 10 ^ 8))"

definition format_decimal :: "real \<Rightarrow> string" where
  "format_decimal v = replace (CHR ''.'') (CHR '','') (py_format_8f v)"

definition safe_float :: "string \<Rightarrow> error + real" where
  "safe_float value_str =
     (let v = strip value_str
      in if v = [] then Inr 0 else py_float (replace (CHR '','') (CHR ''.'') v))"

text \<open>
  A number rounded to eight decimals, half to even: the number that the text written by
  \<^verbatim>\<open>_format_decimal\<close> denotes.
\<close>

definition round8 :: "real \<Rightarrow> real" where
  "round8 x = (if x < 0 then - 1 else 1) * of_nat (quantize8 x) / 10 ^ 8"

subsection \<open>Timestamps\<close>

text \<open>
  A \<^verbatim>\<open>datetime\<close> is the tuple (year, month, day, hour, minute, second); Python compares
  two of them field by field, which is the lexicographic order on the tuple.
\<close>

type_synonym datetime = "nat \<times> nat \<times> nat \<times> nat \<times> nat \<times> nat"

definition datetime_min :: datetime where
  "datetime_min = (1, 1, 1, 0, 0, 0)"

definition is_leap :: "nat \<Rightarrow> bool" where
  "is_leap y = (y mod 4 = 0 \<and> (y mod 100 \<noteq> 0 \<or> y mod 400 = 0))"

definition days_in_month :: "nat \<Rightarrow> nat \<Rightarrow> nat" where
  "days_in_month y m =
     (if m = 2 then (if is_leap y then 29 else 28)
      else if m = 4 \<or> m = 6 \<or> m = 9 \<or> m = 11 then 30 else 31)"

text \<open>
  \<^verbatim>\<open>datetime.strptime(s, '%Y-%m-%d %H:%M:%S')\<close> on the fixed-width form
  \<^verbatim>\<open>YYYY-MM-DD HH:MM:SS\<close>. Python also accepts one-digit fields and other whitespace
  between date and time; the model rejects them.
\<close>

definition strptime :: "string \<Rightarrow> error + datetime" where
  "strptime s =
     (if length s = 19
         \<and> list_all is_digit (take 4 s) \<and> s ! 4 = CHR ''-''
         \<and> list_all is_digit (take 2 (drop 5 s)) \<and> s ! 7 = CHR ''-''
         \<and> list_all is_digit (take 2 (drop 8 s)) \<and> s ! 10 = CHR '' ''
         \<and> list_all is_digit (take 2 (drop 11 s)) \<and> s ! 13 = CHR '':''
         \<and> list_all is_digit (take 2 (drop 14 s)) \<and> s ! 16 = CHR '':''
         \<and> list_all is_digit (take 2 (drop 17 s))
      then
        let y = nat_of_digits (take 4 s);
            mo = nat_of_digits (take 2 (drop 5 s));
            d = nat_of_digits (take 2 (drop 8 s));
            h = nat_of_digits (take 2 (drop 11 s));
            mi = nat_of_digits (take 2 (drop 14 s));
            se = nat_of_digits (take 2 (drop 17 s))
        in if 1 \<le> y \<and> 1 \<le> mo \<and> mo \<le> 12 \<and> 1 \<le> d \<and> d \<le> days_in_month y mo
              \<and> h \<le> 23 \<and> mi \<le> 59 \<and> se \<le> 59
           then Inr (y, mo, d, h, mi, se) else Inl ValueError
      else Inl ValueError)"

text \<open>
  \<^verbatim>\<open>d.strftime('%Y-%m-%d %H:%M:%S')\<close>. The year is written without padding, as the C
  library of Linux writes it: the year 999 is \<^verbatim>\<open>999\<close>.
\<close>

definition strftime :: "datetime \<Rightarrow> string" where
  "strftime dt =
     (case dt of (y, mo, d, h, mi, se) \<Rightarrow>
        nat_digits y @ ''-'' @ fixed_digits 2 mo @ ''-'' @ fixed_digits 2 d @ '' ''
        @ fixed_digits 2 h @ '':'' @ fixed_digits 2 mi @ '':'' @ fixed_digits 2 se)"

subsection \<open>Reading the trade file\<close>

record trade =
  symbol :: string
  price :: real
  qty :: real
  time :: string
  is_buyer :: bool

datatype log_event =
    Warning_malformed_line string
  | Info_processing nat
  | Warning_sell_skipped string real real
  | Info_portfolio_updated
  | Error_csv_write_failed
  | Info_change_log_saved

text \<open>
  One line of the trade file. A line with fewer than five fields is passed over in
  silence; unpacking more than five fields, or a price or quantity that is not a number,
  raises the \<^verbatim>\<open>ValueError\<close> that the loop catches and logs.
\<close>

datatype line_result = Parsed trade | Short_line | Malformed

definition parse_trade_line :: "string \<Rightarrow> line_result" where
  "parse_trade_line line =
     (let parts = split (CHR '','') (strip line)
      in if length parts < 5 then Short_line
         else if length parts \<noteq> 5 then Malformed
         else (case py_float (parts ! 1) of
                 Inl e \<Rightarrow> Malformed
               | Inr p \<Rightarrow>
                   (case py_float (parts ! 2) of
                      Inl e \<Rightarrow> Malformed
                    | Inr q \<Rightarrow>
                        Parsed \<lparr>symbol = parts ! 0, price = p, qty = q, time = parts ! 3,
                                is_buyer = (parts ! 4 = ''True'')\<rparr>)))"

fun read_lines :: "string list \<Rightarrow> trade list \<times> log_event list" where
  "read_lines [] = ([], [])"
| "read_lines (line # rest) =
     (case read_lines rest of (trades, logs) \<Rightarrow>
        (case parse_trade_line line of
           Parsed t \<Rightarrow> (t # trades, logs)
         | Short_line \<Rightarrow> (trades, logs)
         | Malformed \<Rightarrow> (trades, Warning_malformed_line (strip line) # logs)))"

definition time_key :: "trade \<Rightarrow> datetime" where
  "time_key t = (case strptime (time t) of Inr d \<Rightarrow> d | Inl e \<Rightarrow> datetime_min)"

text \<open>
  The first line of the file is skipped as the header. The sort is stable; a time that
  does not parse raises out of the sort, and nothing catches it.
\<close>

definition read_trade_data :: "string list option \<Rightarrow> error + trade list \<times> log_event list" where
  "read_trade_data raw_data_file =
     (case (case raw_data_file of None \<Rightarrow> ([], []) | Some lines \<Rightarrow> read_lines (tl lines)) of
        (trades, logs) \<Rightarrow>
          if list_ex (\<lambda>t. isl (strptime (time t))) trades then Inl ValueError
          else Inr (sort_key time_key trades, logs))"

subsection \<open>The reconciliation loop\<close>

text \<open>
  \<^verbatim>\<open>sheet_rows\<close> is the list of rows, the header first. \<^verbatim>\<open>portfolio_map\<close> maps a symbol
  to its row object, which is also an element of \<^verbatim>\<open>sheet_rows\<close>: the model keeps the
  position of that row in \<^verbatim>\<open>sheet_rows\<close>, so that writing through the map changes the
  sheet, as it does in Python.
\<close>

record run_state =
  sheet_rows :: "string list list"
  portfolio_map :: "string \<rightharpoonup> nat"
  modified_symbols :: "string set"
  logged :: "log_event list"

definition cell :: "string list \<Rightarrow> nat \<Rightarrow> error + string" where
  "cell row k = (if k < length row then Inr (row ! k) else Inl IndexError)"

record metrics =
  final_avg_price :: real
  final_qty :: real
  final_break_even :: real
  new_realized_pnl :: real

text \<open>
  The branch for a symbol that has a row. \<open>None\<close> is the \<^verbatim>\<open>continue\<close> of a sell that
  exceeds the quantity held.
\<close>

definition existing_position :: "trade \<Rightarrow> real \<Rightarrow> real \<Rightarrow> real \<Rightarrow> metrics option" where
  "existing_position trade current_avg_price current_qty current_realized_pnl =
     (if is_buyer trade then
        (let total_cost = current_avg_price * current_qty;
             new_cost = price trade * qty trade;
             fq = current_qty + qty trade;
             fa = (if fq > 0 then (total_cost + new_cost) / fq else 0);
             pnl = current_realized_pnl
         in Some \<lparr>final_avg_price = fa, final_qty = fq,
                  final_break_even = (if fq > 0 then (fa * fq - pnl) / fq else 0),
                  new_realized_pnl = pnl\<rparr>)
      else if qty trade > current_qty then None
      else
        (let pnl_from_sale = (price trade - current_avg_price) * qty trade;
             pnl = current_realized_pnl + pnl_from_sale;
             fq = current_qty - qty trade;
             fa = current_avg_price
         in Some \<lparr>final_avg_price = fa, final_qty = fq,
                  final_break_even = (if fq > 0 then (fa * fq - pnl) / fq else 0),
                  new_realized_pnl = pnl\<rparr>))"

text \<open>The branch for a symbol that has no row yet.\<close>

definition new_position :: "trade \<Rightarrow> metrics" where
  "new_position trade =
     (let fa = price trade;
          fq = (if is_buyer trade then qty trade else - qty trade);
          pnl = 0
      in \<lparr>final_avg_price = fa, final_qty = fq,
          final_break_even = (if fq \<noteq> 0 then (fa * fq - pnl) / fq else 0),
          new_realized_pnl = pnl\<rparr>)"

definition update_row :: "string list \<Rightarrow> datetime \<Rightarrow> metrics \<Rightarrow> string list" where
  "update_row row tx_date m =
     row[1 := format_decimal (final_avg_price m),
         2 := format_decimal (final_qty m),
         3 := strftime tx_date,
         4 := format_decimal (final_break_even m),
         5 := format_decimal (new_realized_pnl m)]"

definition new_row :: "string \<Rightarrow> datetime \<Rightarrow> metrics \<Rightarrow> string list" where
  "new_row smb tx_date m =
     [smb, format_decimal (final_avg_price m), format_decimal (final_qty m),
      strftime tx_date, format_decimal (final_break_even m),
      format_decimal (new_realized_pnl m)]"

text \<open>The body of the loop over the trades, for one trade.\<close>

definition process_trade :: "datetime \<Rightarrow> run_state \<Rightarrow> trade \<Rightarrow> error + run_state" where
  "process_trade cutoff_date st trade =
     bind_err (strptime (time trade)) (\<lambda>tx_date.
       if tx_date \<le> cutoff_date then Inr st
       else
         (case portfolio_map st (symbol trade) of
            Some i \<Rightarrow>
              (let row = sheet_rows st ! i
               in bind_err (bind_err (cell row 1) safe_float) (\<lambda>current_avg_price.
                  bind_err (bind_err (cell row 2) safe_float) (\<lambda>current_qty.
                  bind_err (bind_err (cell row 5) safe_float) (\<lambda>current_realized_pnl.
                    (case existing_position trade current_avg_price current_qty
                            current_realized_pnl of
                       None \<Rightarrow>
                         Inr (st\<lparr>logged := logged st
                                  @ [Warning_sell_skipped (symbol trade) (qty trade)
                                       current_qty]\<rparr>)
                     | Some m \<Rightarrow>
                         Inr (st\<lparr>sheet_rows := (sheet_rows st)[i := update_row row tx_date m],
                                 modified_symbols :=
                                   insert (symbol trade) (modified_symbols st)\<rparr>))))))
          | None \<Rightarrow>
              Inr (st\<lparr>sheet_rows :=
                        sheet_rows st @ [new_row (symbol trade) tx_date (new_position trade)],
                      portfolio_map :=
                        (portfolio_map st)(symbol trade \<mapsto> length (sheet_rows st)),
                      modified_symbols := insert (symbol trade) (modified_symbols st)\<rparr>)))"

fun process_trades :: "datetime \<Rightarrow> run_state \<Rightarrow> trade list \<Rightarrow> error + run_state" where
  "process_trades cutoff_date st [] = Inr st"
| "process_trades cutoff_date st (trade # rest) =
     (case process_trade cutoff_date st trade of
        Inl e \<Rightarrow> Inl e
      | Inr st' \<Rightarrow> process_trades cutoff_date st' rest)"

subsection \<open>The run\<close>

text \<open>
  The files the engine reads and writes. \<open>csv_writable\<close> and \<open>log_writable\<close> say
  whether writing the file succeeds. When it does not, Python raises an \<^verbatim>\<open>IOError\<close>
  somewhere between opening the file, which truncates it, and the end of the write;
  \<open>csv_after_failure\<close> and \<open>log_after_failure\<close> are what the file holds then: its
  previous content if the open failed, an empty or partial file if the write failed later.
\<close>

record files =
  raw_data_file :: "string list option"
  portfolio_csv :: "string list list option"
  last_sync_file :: "string option"
  modified_log_file :: "string option"
  csv_writable :: bool
  log_writable :: bool
  csv_after_failure :: "string list list option"
  log_after_failure :: "string option"

definition header :: "string list" where
  "header = [''symbol'', ''average_price'', ''quantity'', ''last_trade_time'', ''break_even'',
             ''realized_pnl'']"

definition read_cutoff :: "string option \<Rightarrow> error + datetime" where
  "read_cutoff last_sync =
     (case last_sync of
        None \<Rightarrow> Inr datetime_min
      | Some content \<Rightarrow>
          (let date_str = strip content
           in if date_str \<noteq> [] then strptime date_str else Inr datetime_min))"

text \<open>
  \<^verbatim>\<open>{row[0]: row for row in sheet_rows[1:]}\<close>: a later row with the same symbol replaces
  an earlier one, and an empty row raises \<^verbatim>\<open>IndexError\<close>.
\<close>

fun build_map :: "string list list \<Rightarrow> nat \<Rightarrow> (string \<rightharpoonup> nat) \<Rightarrow> error + (string \<rightharpoonup> nat)" where
  "build_map [] i m = Inr m"
| "build_map (row # rows) i m =
     (case row of [] \<Rightarrow> Inl IndexError | k # cells \<Rightarrow> build_map rows (Suc i) (m(k \<mapsto> i)))"

definition load_sheet :: "string list list option \<Rightarrow> string list list" where
  "load_sheet csv =
     (let rows = (case csv of None \<Rightarrow> [] | Some rs \<Rightarrow> rs)
      in if rows = [] then [header] else rows)"

fun join :: "string \<Rightarrow> string list \<Rightarrow> string" where
  "join sep [] = []"
| "join sep [x] = x"
| "join sep (x # y # ys) = x @ sep @ join sep (y # ys)"

definition write_results :: "files \<Rightarrow> run_state \<Rightarrow> files \<times> log_event list" where
  "write_results fs st =
     (let (fs1, log1) =
            (if csv_writable fs
             then (fs\<lparr>portfolio_csv := Some (sheet_rows st)\<rparr>, [Info_portfolio_updated])
             else (fs\<lparr>portfolio_csv := csv_after_failure fs\<rparr>, [Error_csv_write_failed]));
          (fs2, log2) =
            (if log_writable fs
             then (fs1\<lparr>modified_log_file :=
                         Some (join '', '' (sorted_list_of_set (modified_symbols st)))\<rparr>,
                   [Info_change_log_saved])
             else (fs1\<lparr>modified_log_file := log_after_failure fs\<rparr>, []))
      in (fs2, logged st @ log1 @ log2))"

definition update_portfolio :: "files \<Rightarrow> error + files \<times> log_event list" where
  "update_portfolio fs =
     bind_err (read_cutoff (last_sync_file fs)) (\<lambda>cutoff_date.
     bind_err (read_trade_data (raw_data_file fs)) (\<lambda>(raw_trades, read_log).
       (let rows = load_sheet (portfolio_csv fs)
        in bind_err (build_map (tl rows) 1 Map.empty) (\<lambda>pmap.
           bind_err (process_trades cutoff_date
                       \<lparr>sheet_rows = rows, portfolio_map = pmap, modified_symbols = {},
                        logged = read_log @ [Info_processing (length raw_trades)]\<rparr>
                       raw_trades)
             (\<lambda>st. Inr (write_results fs st))))))"

subsection \<open>Notions the properties are stated with\<close>

text \<open>
  Every entry of \<^verbatim>\<open>portfolio_map\<close> is a row of \<^verbatim>\<open>sheet_rows\<close>. In Python this holds by
  construction, the map holding the row objects themselves.
\<close>

definition wf_state :: "run_state \<Rightarrow> bool" where
  "wf_state st = (\<forall>s i. portfolio_map st s = Some i \<longrightarrow> i < length (sheet_rows st))"

text \<open>The quantity that the row of a symbol holds, when the symbol has a row.\<close>

definition held_qty :: "run_state \<Rightarrow> string \<Rightarrow> real option" where
  "held_qty st s =
     (case portfolio_map st s of
        None \<Rightarrow> None
      | Some i \<Rightarrow> (case safe_float (sheet_rows st ! i ! 2) of Inl e \<Rightarrow> None | Inr q \<Rightarrow> Some q))"

text \<open>
  The break-even invariant in the words of the specification:
  \<^verbatim>\<open>breakEvenPrice = (averagePrice * quantity - realizedPnl) / quantity\<close> when the
  quantity is not 0, and \<^verbatim>\<open>breakEvenPrice = 0\<close> when it is.
\<close>

definition break_even_identity :: "real \<Rightarrow> real \<Rightarrow> real \<Rightarrow> real \<Rightarrow> bool" where
  "break_even_identity avg q be pnl =
     ((q \<noteq> 0 \<longrightarrow> be = (avg * q - pnl) / q) \<and> (q = 0 \<longrightarrow> be = 0))"

text \<open>
  A trade passes the cutoff filter when its time is later than the cutoff. It is an
  overdraft when it sells more than the row of its symbol holds. It is accepted when it
  passes the filter and is no overdraft.
\<close>

definition passes_cutoff :: "datetime \<Rightarrow> trade \<Rightarrow> bool" where
  "passes_cutoff c t = (case strptime (time t) of Inl e \<Rightarrow> False | Inr d \<Rightarrow> \<not> d \<le> c)"

definition overdraft :: "run_state \<Rightarrow> trade \<Rightarrow> bool" where
  "overdraft st t =
     (\<not> is_buyer t
      \<and> (case held_qty st (symbol t) of None \<Rightarrow> False | Some q \<Rightarrow> q < qty t))"

definition accepted :: "datetime \<Rightarrow> run_state \<Rightarrow> trade \<Rightarrow> bool" where
  "accepted c st t = (passes_cutoff c t \<and> \<not> overdraft st t)"

text \<open>The trades of a list that are accepted as the loop reaches them, in their order.\<close>

fun accepted_trades :: "datetime \<Rightarrow> run_state \<Rightarrow> trade list \<Rightarrow> trade list" where
  "accepted_trades c st [] = []"
| "accepted_trades c st (t # ts) =
     (case process_trade c st t of
        Inl e \<Rightarrow> []
      | Inr st' \<Rightarrow> (if accepted c st t then [t] else []) @ accepted_trades c st' ts)"

text \<open>Two states with the same ledger: they differ in the log at most.\<close>

definition same_ledger :: "run_state \<Rightarrow> run_state \<Rightarrow> bool" where
  "same_ledger st1 st2 =
     (sheet_rows st1 = sheet_rows st2 \<and> portfolio_map st1 = portfolio_map st2
      \<and> modified_symbols st1 = modified_symbols st2)"

text \<open>The quantity-weighted mean of the prices of a list of trades.\<close>

definition weighted_mean :: "trade list \<Rightarrow> real" where
  "weighted_mean ts = (\<Sum>t\<leftarrow>ts. price t * qty t) / (\<Sum>t\<leftarrow>ts. qty t)"

text \<open>
  The symbol has a row of six cells or more in which the average price, the quantity and
  the realized profit read as \<open>a\<close>, \<open>w\<close> and \<open>p\<close>.
\<close>

definition position_reads :: "run_state \<Rightarrow> string \<Rightarrow> real \<Rightarrow> real \<Rightarrow> real \<Rightarrow> bool" where
  "position_reads st s a w p =
     (case portfolio_map st s of
        None \<Rightarrow> False
      | Some i \<Rightarrow>
          i < length (sheet_rows st) \<and> 5 < length (sheet_rows st ! i)
          \<and> safe_float (sheet_rows st ! i ! 1) = Inr a
          \<and> safe_float (sheet_rows st ! i ! 2) = Inr w
          \<and> safe_float (sheet_rows st ! i ! 5) = Inr p)"

text \<open>
  Every row that holds a negative quantity holds the realized profit 0. The loop writes a
  negative quantity only when a sell opens a position, with the profit 0, or when a buy
  goes into such a row, and a buy keeps the profit: the rows that the engine writes all
  are of this kind.
\<close>

definition short_rows_settled :: "run_state \<Rightarrow> bool" where
  "short_rows_settled st =
     (\<forall>s i q. portfolio_map st s = Some i \<and> safe_float (sheet_rows st ! i ! 2) = Inr q \<and> q < 0
        \<longrightarrow> safe_float (sheet_rows st ! i ! 5) = Inr 0)"

text \<open>
  \<^verbatim>\<open>float()\<close> returns a number that a float can hold and that is nearest to the decimal it
  reads. \<open>nearest_in D v y\<close> says that of \<open>y\<close> and \<open>v\<close>, with \<open>D\<close> the numbers that a float
  can hold.
\<close>

definition nearest_in :: "real set \<Rightarrow> real \<Rightarrow> real \<Rightarrow> bool" where
  "nearest_in D v y = (y \<in> D \<and> (\<forall>z\<in>D. \<bar>y - v\<bar> \<le> \<bar>z - v\<bar>))"

text \<open>
  The values that the loop computes for a trade that has passed the cutoff filter: those
  of \<open>new_position\<close> for a symbol without a row, and those of \<open>existing_position\<close>, from
  the numbers read in the row, for a symbol with a row. \<open>None\<close> when the trade is rejected
  or the row does not hold numbers.
\<close>

definition computed_metrics :: "run_state \<Rightarrow> trade \<Rightarrow> metrics option" where
  "computed_metrics st t =
     (case portfolio_map st (symbol t) of
        None \<Rightarrow> Some (new_position t)
      | Some i \<Rightarrow>
          (case safe_float (sheet_rows st ! i ! 1) of
             Inl e \<Rightarrow> None
           | Inr a \<Rightarrow>
               (case safe_float (sheet_rows st ! i ! 2) of
                  Inl e \<Rightarrow> None
                | Inr q \<Rightarrow>
                    (case safe_float (sheet_rows st ! i ! 5) of
                       Inl e \<Rightarrow> None
                     | Inr p \<Rightarrow> existing_position t a q p))))"

section \<open>Evaluation rules and basic facts\<close>

subsection \<open>Digits\<close>

lemma fixed_digits_8:
  "fixed_digits 8 n =
     [digit_char (n div 10 div 10 div 10 div 10 div 10 div 10 div 10 mod 10),
      digit_char (n div 10 div 10 div 10 div 10 div 10 div 10 mod 10),
      digit_char (n div 10 div 10 div 10 div 10 div 10 mod 10),
      digit_char (n div 10 div 10 div 10 div 10 mod 10),
      digit_char (n div 10 div 10 div 10 mod 10),
      digit_char (n div 10 div 10 mod 10),
      digit_char (n div 10 mod 10),
      digit_char (n mod 10)]"
proof -
  have "(8::nat) = Suc (Suc (Suc (Suc (Suc (Suc (Suc (Suc 0)))))))" by simp
  then show ?thesis by (simp only: fixed_digits.simps append.simps)
qed

lemma fixed_digits_4:
  "fixed_digits 4 n =
     [digit_char (n div 10 div 10 div 10 mod 10), digit_char (n div 10 div 10 mod 10),
      digit_char (n div 10 mod 10), digit_char (n mod 10)]"
proof -
  have "(4::nat) = Suc (Suc (Suc (Suc 0)))" by simp
  then show ?thesis by (simp only: fixed_digits.simps append.simps)
qed

lemma fixed_digits_2:
  "fixed_digits 2 n = [digit_char (n div 10 mod 10), digit_char (n mod 10)]"
proof -
  have "(2::nat) = Suc (Suc 0)" by simp
  then show ?thesis by (simp only: fixed_digits.simps append.simps)
qed

lemmas fmt_eval = format_decimal_def py_format_8f_def quantize8_def round_half_even_def
  replace_def nat_digits.simps fixed_digits_8 digit_char_def

lemmas parse_eval = safe_float_def py_float_def strip_def is_space_def replace_def is_digit_def
  nat_of_digits_def digit_val_def

lemmas time_eval = strptime_def strftime_def is_digit_def nat_of_digits_def digit_val_def
  days_in_month_def is_leap_def nat_digits.simps fixed_digits_2 digit_char_def

lemma digit_char_props:
  assumes "n < 10"
  shows "is_digit (digit_char n)" and "digit_val (digit_char n) = n"
proof -
  from assms have "n \<in> {9, 8, 7, 6, 5, 4, 3, 2, 1, 0}" by auto
  then show "is_digit (digit_char n)" and "digit_val (digit_char n) = n"
    by (auto simp: digit_char_def is_digit_def digit_val_def)
qed

lemma is_digit_not_special:
  assumes "is_digit c"
  shows "\<not> is_space c" and "c \<noteq> CHR '',''" and "c \<noteq> CHR ''.''" and "c \<noteq> CHR ''-''"
    and "c \<noteq> CHR ''+''"
  using assms by (auto simp: is_digit_def is_space_def)

lemma nat_of_digits_snoc:
  "nat_of_digits (ds @ [c]) = 10 * nat_of_digits ds + digit_val c"
  by (simp add: nat_of_digits_def)

lemma nat_digits_all_digits: "list_all is_digit (nat_digits n)"
proof (induction n rule: nat_digits.induct)
  case (1 n)
  show ?case
  proof (cases "n < 10")
    case True
    then show ?thesis by (subst nat_digits.simps) (simp add: digit_char_props)
  next
    case False
    with 1 show ?thesis by (subst nat_digits.simps) (simp add: digit_char_props)
  qed
qed

lemma nat_digits_nonempty: "nat_digits n \<noteq> []"
  by (subst nat_digits.simps) simp

lemma nat_of_digits_nat_digits: "nat_of_digits (nat_digits n) = n"
proof (induction n rule: nat_digits.induct)
  case (1 n)
  show ?case
  proof (cases "n < 10")
    case True
    then show ?thesis
      by (subst nat_digits.simps) (simp add: nat_of_digits_def digit_char_props)
  next
    case False
    with 1 show ?thesis
      by (subst nat_digits.simps) (simp add: nat_of_digits_snoc digit_char_props)
  qed
qed

lemma length_fixed_digits: "length (fixed_digits k n) = k"
  by (induction k arbitrary: n) simp_all

lemma fixed_digits_all_digits: "list_all is_digit (fixed_digits k n)"
  by (induction k arbitrary: n) (simp_all add: digit_char_props)

lemma nat_of_digits_fixed_digits: "nat_of_digits (fixed_digits k n) = n mod 10 ^ k"
proof (induction k arbitrary: n)
  case 0
  show ?case by (simp add: nat_of_digits_def)
next
  case (Suc k)
  have "n mod 10 ^ Suc k = 10 * (n div 10 mod 10 ^ k) + n mod 10"
    by (simp add: mod_mult2_eq)
  with Suc show ?case by (simp add: nat_of_digits_snoc digit_char_props)
qed

subsection \<open>Reading decimal text\<close>

lemma strip_id:
  assumes "s \<noteq> []" and "\<not> is_space (hd s)" and "\<not> is_space (last s)"
  shows "strip s = s"
proof -
  from assms have a: "dropWhile is_space s = s"
    by (cases s) simp_all
  from assms have "dropWhile is_space (rev s) = rev s"
    by (cases "rev s") (simp_all add: hd_rev)
  with a show ?thesis by (simp add: strip_def)
qed

lemma strip_all_space:
  assumes "list_all is_space s"
  shows "strip s = []"
proof -
  from assms have d: "dropWhile is_space s = []"
    by (simp add: list_all_iff dropWhile_eq_Nil_conv)
  show ?thesis by (simp add: strip_def d)
qed

lemma takeWhile_digits:
  assumes "list_all is_digit ip" and "\<not> is_digit c"
  shows "takeWhile is_digit (ip @ c # r) = ip" and "dropWhile is_digit (ip @ c # r) = c # r"
  using assms by (induction ip) simp_all

lemma py_float_unsigned:
  assumes ip: "list_all is_digit ip" and fp: "list_all is_digit fp" and ne: "ip \<noteq> []"
    and len: "fp \<noteq> []"
  shows "py_float (ip @ CHR ''.'' # fp)
         = Inr (of_nat (nat_of_digits ip) + of_nat (nat_of_digits fp) / 10 ^ length fp)"
proof -
  let ?s = "ip @ CHR ''.'' # fp"
  have nd: "\<not> is_digit CHR ''.''" by (simp add: is_digit_def)
  from ip ne have h: "is_digit (hd ?s)" by (cases ip) simp_all
  from fp len have l: "is_digit (last ?s)"
    by (simp add: list_all_iff)
  have st: "strip ?s = ?s"
    by (rule strip_id) (use h l in \<open>simp_all add: is_digit_not_special\<close>)
  from h have sg: "hd ?s \<noteq> CHR ''-''" "hd ?s \<noteq> CHR ''+''"
    by (simp_all add: is_digit_not_special)
  show ?thesis
    unfolding py_float_def st Let_def
    using sg takeWhile_digits [OF ip nd, of fp] fp ne by simp
qed

lemma py_float_negative:
  assumes ip: "list_all is_digit ip" and fp: "list_all is_digit fp" and ne: "ip \<noteq> []"
    and len: "fp \<noteq> []"
  shows "py_float (CHR ''-'' # ip @ CHR ''.'' # fp)
         = Inr (- (of_nat (nat_of_digits ip) + of_nat (nat_of_digits fp) / 10 ^ length fp))"
proof -
  let ?s = "CHR ''-'' # ip @ CHR ''.'' # fp"
  have nd: "\<not> is_digit CHR ''.''" by (simp add: is_digit_def)
  from fp len have l: "is_digit (last ?s)"
    by (simp add: list_all_iff)
  have m: "\<not> is_space CHR ''-''" by (simp add: is_space_def)
  from l have "\<not> is_space (last ?s)" by (rule is_digit_not_special)
  with m have st: "strip ?s = ?s"
    by (intro strip_id) simp_all
  show ?thesis
    unfolding py_float_def st Let_def
    using takeWhile_digits [OF ip nd, of fp] fp ne by simp
qed

subsection \<open>Rounding to eight decimals\<close>

lemma round_half_even_error: "\<bar>of_int (round_half_even y) - y\<bar> \<le> 1 / 2"
proof -
  have "of_int \<lfloor>y\<rfloor> \<le> y" and "y < of_int \<lfloor>y\<rfloor> + 1" by linarith+
  then show ?thesis
    by (auto simp: round_half_even_def Let_def)
qed

lemma round_half_even_of_int: "round_half_even (of_int k) = k"
  by (simp add: round_half_even_def)

lemma round_half_even_nonneg: "0 \<le> y \<Longrightarrow> 0 \<le> round_half_even y"
  by (auto simp: round_half_even_def Let_def)

lemma of_nat_quantize8: "real (quantize8 x) = of_int (round_half_even (\<bar>x\<bar> * 10 ^ 8))"
  by (simp add: quantize8_def round_half_even_nonneg)

lemma round8_error: "\<bar>round8 x - x\<bar> \<le> 1 / (2 * 10 ^ 8)"
proof -
  define d where "d = real (quantize8 x) / 10 ^ 8 - \<bar>x\<bar>"
  define e :: real where "e = 1 / (2 * 10 ^ 8)"
  have "\<bar>of_int (round_half_even (\<bar>x\<bar> * 10 ^ 8)) - \<bar>x\<bar> * 10 ^ 8\<bar> \<le> 1 / 2"
    by (rule round_half_even_error)
  then have "\<bar>real (quantize8 x) - \<bar>x\<bar> * 10 ^ 8\<bar> \<le> 1 / 2"
    by (simp only: of_nat_quantize8)
  then have "real (quantize8 x) - \<bar>x\<bar> * 10 ^ 8 \<le> 1 / 2"
    and "- (real (quantize8 x) - \<bar>x\<bar> * 10 ^ 8) \<le> 1 / 2"
    unfolding abs_le_iff by blast+
  then have a: "d \<le> e" and b: "- d \<le> e"
    by (simp_all add: d_def e_def field_simps)
  have "round8 x - x = d \<or> round8 x - x = - d"
    by (cases "x < 0") (simp_all add: round8_def d_def)
  then have "\<bar>round8 x - x\<bar> = \<bar>d\<bar>" by auto
  also from a b have "\<bar>d\<bar> \<le> e" by (simp add: abs_le_iff)
  finally show ?thesis by (simp only: e_def)
qed

lemma round8_grid: "round8 (of_int k / 10 ^ 8) = of_int k / 10 ^ 8"
proof -
  have "\<bar>real_of_int k / 10 ^ 8\<bar> * 10 ^ 8 = of_int \<bar>k\<bar>" by simp
  then have q: "real (quantize8 (of_int k / 10 ^ 8)) = of_int \<bar>k\<bar>"
    by (simp only: of_nat_quantize8 round_half_even_of_int)
  show ?thesis
  proof (cases "k < 0")
    case True
    then have "real_of_int k / 10 ^ 8 < 0" by (simp add: divide_neg_pos)
    with True q show ?thesis by (simp add: round8_def)
  next
    case False
    then have "\<not> real_of_int k / 10 ^ 8 < 0" by (simp add: not_less)
    with False q show ?thesis by (simp add: round8_def)
  qed
qed

lemma round8_nonneg: "0 \<le> x \<Longrightarrow> 0 \<le> round8 x"
  by (simp add: round8_def)

lemma round8_nonpos: "x \<le> 0 \<Longrightarrow> round8 x \<le> 0"
  by (cases "x < 0") (simp_all add: round8_def quantize8_def round_half_even_def)

lemma round8_zero: "round8 0 = 0"
  by (simp add: round8_def quantize8_def round_half_even_def)

subsection \<open>Writing a number and reading it back\<close>

lemma replace_digits:
  assumes "list_all is_digit ds" and "\<not> is_digit a"
  shows "replace a b ds = ds"
  using assms by (induction ds) (auto simp: replace_def)

lemma replace_append: "replace a b (xs @ ys) = replace a b xs @ replace a b ys"
  by (simp add: replace_def)

lemma replace_Cons: "replace a b (c # cs) = (if c = a then b else c) # replace a b cs"
  by (simp add: replace_def)

lemma format_decimal_shape:
  "format_decimal x =
     (if x < 0 then ''-'' else '''') @ nat_digits (quantize8 x div 10 ^ 8) @ '',''
     @ fixed_digits 8 (quantize8 x mod 10 ^ 8)"
proof -
  have nd: "\<not> is_digit CHR ''.''" by (simp add: is_digit_def)
  have a: "replace CHR ''.'' CHR '','' (nat_digits n) = nat_digits n" for n
    by (rule replace_digits [OF nat_digits_all_digits nd])
  have b: "replace CHR ''.'' CHR '','' (fixed_digits k n) = fixed_digits k n" for k n
    by (rule replace_digits [OF fixed_digits_all_digits nd])
  have c: "replace CHR ''.'' CHR '','' [] = []"
    by (simp add: replace_def)
  show ?thesis
    by (simp add: format_decimal_def py_format_8f_def Let_def replace_append replace_Cons a b c)
qed

lemma safe_float_format_decimal: "safe_float (format_decimal x) = Inr (round8 x)"
proof -
  let ?n = "quantize8 x"
  let ?ip = "nat_digits (?n div 10 ^ 8)"
  let ?fp = "fixed_digits 8 (?n mod 10 ^ 8)"
  have nd: "\<not> is_digit CHR '',''" by (simp add: is_digit_def)
  have ip: "list_all is_digit ?ip" by (rule nat_digits_all_digits)
  have fp: "list_all is_digit ?fp" by (rule fixed_digits_all_digits)
  have ne: "?ip \<noteq> []" by (rule nat_digits_nonempty)
  have fne: "?fp \<noteq> []" using length_fixed_digits [of 8 "?n mod 10 ^ 8"] by auto
  have rip: "replace CHR '','' CHR ''.'' ?ip = ?ip" by (rule replace_digits [OF ip nd])
  have rfp: "replace CHR '','' CHR ''.'' ?fp = ?fp" by (rule replace_digits [OF fp nd])
  have val: "real (nat_of_digits ?ip) + real (nat_of_digits ?fp) / 10 ^ length ?fp
             = real ?n / 10 ^ 8"
  proof -
    have "real ?n = real (?n div 10 ^ 8 * 10 ^ 8 + ?n mod 10 ^ 8)" by simp
    also have "\<dots> = real (?n div 10 ^ 8) * 10 ^ 8 + real (?n mod 10 ^ 8)"
      by (simp only: of_nat_add of_nat_mult of_nat_power of_nat_numeral)
    finally have "real ?n / 10 ^ 8 = real (?n div 10 ^ 8) + real (?n mod 10 ^ 8) / 10 ^ 8"
      by (simp add: field_simps)
    then show ?thesis
      by (simp only: nat_of_digits_nat_digits nat_of_digits_fixed_digits length_fixed_digits
            mod_mod_trivial)
  qed
  from fp fne have lst: "is_digit (last ?fp)" by (simp add: list_all_iff)
  show ?thesis
  proof (cases "x < 0")
    case True
    let ?s = "CHR ''-'' # ?ip @ CHR '','' # ?fp"
    from True have shape: "format_decimal x = ?s" by (simp add: format_decimal_shape)
    have m: "\<not> is_space CHR ''-''" by (simp add: is_space_def)
    from lst fne have "\<not> is_space (last ?s)" by (simp add: is_digit_not_special)
    with m have st: "strip ?s = ?s" by (intro strip_id) simp_all
    have rep: "replace CHR '','' CHR ''.'' ?s = CHR ''-'' # ?ip @ CHR ''.'' # ?fp"
      using rip rfp by (simp add: replace_def)
    show ?thesis
      unfolding shape safe_float_def st Let_def rep
      using py_float_negative [OF ip fp ne fne] val True by (simp add: round8_def)
  next
    case False
    let ?s = "?ip @ CHR '','' # ?fp"
    from False have shape: "format_decimal x = ?s" by (simp add: format_decimal_shape)
    from ip ne have "is_digit (hd ?s)" by (cases ?ip) simp_all
    then have h: "\<not> is_space (hd ?s)" by (rule is_digit_not_special)
    from lst fne have "\<not> is_space (last ?s)" by (simp add: is_digit_not_special)
    with h have st: "strip ?s = ?s" by (intro strip_id) simp_all
    have rep: "replace CHR '','' CHR ''.'' ?s = ?ip @ CHR ''.'' # ?fp"
      using rip rfp by (simp add: replace_def)
    show ?thesis
      unfolding shape safe_float_def st Let_def rep
      using py_float_unsigned [OF ip fp ne fne] val False by (simp add: round8_def)
  qed
qed

lemma strip_replace:
  assumes "\<not> is_space a" and "\<not> is_space b"
  shows "strip (replace a b s) = replace a b (strip s)"
proof -
  let ?f = "\<lambda>c. if c = a then b else c"
  from assms have eq: "is_space \<circ> ?f = is_space" by (auto simp: fun_eq_iff)
  have "dropWhile is_space (map ?f xs) = map ?f (dropWhile is_space xs)" for xs
    by (simp add: dropWhile_map eq)
  then show ?thesis by (simp add: strip_def replace_def rev_map)
qed

lemma replace_replace: "replace a b (replace a b s) = replace a b s"
  by (auto simp: replace_def)

lemma safe_float_comma_point: "safe_float (replace CHR '','' CHR ''.'' s) = safe_float s"
proof -
  have "\<not> is_space CHR '',''" and "\<not> is_space CHR ''.''" by (simp_all add: is_space_def)
  then have "strip (replace CHR '','' CHR ''.'' s) = replace CHR '','' CHR ''.'' (strip s)"
    by (rule strip_replace)
  moreover have "replace CHR '','' CHR ''.'' (strip s) = [] \<longleftrightarrow> strip s = []"
    by (simp add: replace_def)
  ultimately show ?thesis by (simp add: safe_float_def Let_def replace_replace)
qed

lemma safe_float_digits:
  assumes ip: "list_all is_digit ip" and fp: "list_all is_digit fp" and ne: "ip \<noteq> []"
    and fne: "fp \<noteq> []"
  shows "safe_float (ip @ ''.'' @ fp)
         = Inr (of_nat (nat_of_digits ip) + of_nat (nat_of_digits fp) / 10 ^ length fp)"
proof -
  let ?s = "ip @ CHR ''.'' # fp"
  have nd: "\<not> is_digit CHR '',''" by (simp add: is_digit_def)
  from ip ne have "is_digit (hd ?s)" by (cases ip) simp_all
  then have h: "\<not> is_space (hd ?s)" by (rule is_digit_not_special)
  from fp fne have "is_digit (last ?s)" by (simp add: list_all_iff)
  then have "\<not> is_space (last ?s)" by (rule is_digit_not_special)
  with h have st: "strip ?s = ?s" by (intro strip_id) simp_all
  have rep: "replace CHR '','' CHR ''.'' ?s = ?s"
    using replace_digits [OF ip nd] replace_digits [OF fp nd]
    by (simp add: replace_append replace_Cons)
  show ?thesis
    using py_float_unsigned [OF ip fp ne fne] by (simp add: safe_float_def st rep)
qed

lemma safe_float_blank:
  assumes "list_all is_space s"
  shows "safe_float s = Inr 0"
  using strip_all_space [OF assms] by (simp add: safe_float_def)

lemma round8_on_grid: "\<exists>k::int. round8 x = of_int k / 10 ^ 8"
proof (cases "x < 0")
  case True
  then have "round8 x = of_int (- int (quantize8 x)) / 10 ^ 8" by (simp add: round8_def)
  then show ?thesis by blast
next
  case False
  then have "round8 x = of_int (int (quantize8 x)) / 10 ^ 8" by (simp add: round8_def)
  then show ?thesis by blast
qed

subsection \<open>One trade\<close>

lemmas run_eval = process_trade_def bind_err_def cell_def existing_position_def new_position_def
  update_row_def new_row_def

lemma process_trade_skipped:
  assumes "strptime (time t) = Inr d" and "d \<le> c"
  shows "process_trade c st t = Inr st"
  using assms by (simp add: process_trade_def bind_err_def)

lemma process_trade_created:
  assumes "strptime (time t) = Inr d" and "\<not> d \<le> c" and "portfolio_map st (symbol t) = None"
  shows "process_trade c st t
         = Inr (st\<lparr>sheet_rows := sheet_rows st @ [new_row (symbol t) d (new_position t)],
                  portfolio_map := (portfolio_map st)(symbol t \<mapsto> length (sheet_rows st)),
                  modified_symbols := insert (symbol t) (modified_symbols st)\<rparr>)"
  using assms by (simp add: process_trade_def bind_err_def)

lemma process_trade_existing:
  assumes "strptime (time t) = Inr d" and "\<not> d \<le> c"
    and "portfolio_map st (symbol t) = Some i"
    and "5 < length (sheet_rows st ! i)"
    and "safe_float (sheet_rows st ! i ! 1) = Inr a"
    and "safe_float (sheet_rows st ! i ! 2) = Inr q"
    and "safe_float (sheet_rows st ! i ! 5) = Inr p"
  shows "process_trade c st t
         = (case existing_position t a q p of
              None \<Rightarrow> Inr (st\<lparr>logged := logged st @ [Warning_sell_skipped (symbol t) (qty t) q]\<rparr>)
            | Some m \<Rightarrow>
                Inr (st\<lparr>sheet_rows := (sheet_rows st)[i := update_row (sheet_rows st ! i) d m],
                        modified_symbols := insert (symbol t) (modified_symbols st)\<rparr>))"
  using assms by (simp add: process_trade_def bind_err_def cell_def)

lemma process_trade_cases:
  assumes "process_trade c st t = Inr st'"
  obtains
    (skipped) d where "strptime (time t) = Inr d" and "d \<le> c" and "st' = st"
  | (created) d where "strptime (time t) = Inr d" and "\<not> d \<le> c"
      and "portfolio_map st (symbol t) = None"
      and "st' = st\<lparr>sheet_rows := sheet_rows st @ [new_row (symbol t) d (new_position t)],
                     portfolio_map := (portfolio_map st)(symbol t \<mapsto> length (sheet_rows st)),
                     modified_symbols := insert (symbol t) (modified_symbols st)\<rparr>"
  | (rejected) d i a q p where "strptime (time t) = Inr d" and "\<not> d \<le> c"
      and "portfolio_map st (symbol t) = Some i" and "5 < length (sheet_rows st ! i)"
      and "safe_float (sheet_rows st ! i ! 1) = Inr a"
      and "safe_float (sheet_rows st ! i ! 2) = Inr q"
      and "safe_float (sheet_rows st ! i ! 5) = Inr p"
      and "existing_position t a q p = None"
      and "st' = st\<lparr>logged := logged st @ [Warning_sell_skipped (symbol t) (qty t) q]\<rparr>"
  | (updated) d i a q p m where "strptime (time t) = Inr d" and "\<not> d \<le> c"
      and "portfolio_map st (symbol t) = Some i" and "5 < length (sheet_rows st ! i)"
      and "safe_float (sheet_rows st ! i ! 1) = Inr a"
      and "safe_float (sheet_rows st ! i ! 2) = Inr q"
      and "safe_float (sheet_rows st ! i ! 5) = Inr p"
      and "existing_position t a q p = Some m"
      and "st' = st\<lparr>sheet_rows := (sheet_rows st)[i := update_row (sheet_rows st ! i) d m],
                     modified_symbols := insert (symbol t) (modified_symbols st)\<rparr>"
proof -
  from assms obtain d where d: "strptime (time t) = Inr d"
    by (cases "strptime (time t)") (simp_all add: process_trade_def bind_err_def)
  show thesis
  proof (cases "d \<le> c")
    case True
    with assms d have "st' = st" by (simp add: process_trade_skipped)
    with d True show thesis by (rule skipped)
  next
    case late: False
    show thesis
    proof (cases "portfolio_map st (symbol t)")
      case None
      with assms d late show thesis
        by (intro created [of d]) (simp_all add: process_trade_created)
    next
      case (Some i)
      let ?row = "sheet_rows st ! i"
      from assms d late Some have len: "5 < length ?row"
        by (auto simp: process_trade_def bind_err_def cell_def Let_def split: if_splits sum.splits)
      from assms d late Some len obtain a where a: "safe_float (?row ! 1) = Inr a"
        by (cases "safe_float (?row ! 1)") (simp_all add: process_trade_def bind_err_def cell_def)
      from assms d late Some len a obtain q where q: "safe_float (?row ! 2) = Inr q"
        by (cases "safe_float (?row ! 2)") (simp_all add: process_trade_def bind_err_def cell_def)
      from assms d late Some len a q obtain p where p: "safe_float (?row ! 5) = Inr p"
        by (cases "safe_float (?row ! 5)") (simp_all add: process_trade_def bind_err_def cell_def)
      note ex = process_trade_existing [OF d late Some len a q p]
      show thesis
      proof (cases "existing_position t a q p")
        case None
        with assms ex show thesis
          by (intro rejected [OF d late Some len a q p]) auto
      next
        case (Some m)
        with assms ex show thesis
          by (intro updated [OF d late \<open>portfolio_map st (symbol t) = Some i\<close> len a q p]) auto
      qed
    qed
  qed
qed

lemma wf_state_process_trade:
  assumes "process_trade c st t = Inr st'" and "wf_state st"
  shows "wf_state st'"
  using assms(1)
proof (cases rule: process_trade_cases)
  case (created d)
  with assms(2) show ?thesis by (auto simp: wf_state_def less_Suc_eq)
qed (use assms(2) in \<open>auto simp: wf_state_def\<close>)

subsection \<open>Every state of a run is well formed\<close>

lemma build_map_bound:
  assumes "build_map rows i m = Inr m'" and "\<forall>s j. m s = Some j \<longrightarrow> j < i"
  shows "\<forall>s j. m' s = Some j \<longrightarrow> j < i + length rows"
  using assms
proof (induction rows arbitrary: i m)
  case Nil
  then show ?case by simp
next
  case (Cons row rows)
  from Cons.prems(1) obtain k cells where row: "row = k # cells"
    and rest: "build_map rows (Suc i) (m(k \<mapsto> i)) = Inr m'"
    by (cases row) simp_all
  from Cons.prems(2) have "\<forall>s j. (m(k \<mapsto> i)) s = Some j \<longrightarrow> j < Suc i"
    by (auto simp: less_Suc_eq)
  from Cons.IH [OF rest this] show ?case by simp
qed

lemma wf_state_initial:
  assumes "build_map (tl (load_sheet csv)) 1 Map.empty = Inr pmap"
  shows "wf_state \<lparr>sheet_rows = load_sheet csv, portfolio_map = pmap, modified_symbols = ms,
                    logged = lg\<rparr>"
proof -
  have ne: "load_sheet csv \<noteq> []" by (simp add: load_sheet_def Let_def)
  from build_map_bound [OF assms] have "\<forall>s j. pmap s = Some j \<longrightarrow> j < 1 + length (tl (load_sheet csv))"
    by simp
  with ne show ?thesis by (simp add: wf_state_def)
qed

lemma wf_state_process_trades:
  assumes "process_trades c st ts = Inr st'" and "wf_state st"
  shows "wf_state st'"
  using assms
proof (induction ts arbitrary: st)
  case Nil
  then show ?case by simp
next
  case (Cons t ts)
  from Cons.prems(1) obtain st1 where st1: "process_trade c st t = Inr st1"
    and rest: "process_trades c st1 ts = Inr st'"
    by (auto split: sum.splits)
  from wf_state_process_trade [OF st1 Cons.prems(2)] have "wf_state st1" .
  from Cons.IH [OF rest this] show ?case .
qed

section \<open>Selling more than is held\<close>

text \<open>
  Claim C4. A sell for a symbol that has a row, for more than the quantity the row holds,
  is skipped: the sheet, the map and the set of modified symbols are what they were (so
  every field of the row is unchanged), a warning is logged, and the loop goes on with the
  next trade.
\<close>

theorem overdraft_sell_rejected:
  assumes "strptime (time t) = Inr d" and "\<not> d \<le> c"
    and "portfolio_map st (symbol t) = Some i"
    and "5 < length (sheet_rows st ! i)"
    and "safe_float (sheet_rows st ! i ! 1) = Inr a"
    and "safe_float (sheet_rows st ! i ! 2) = Inr q"
    and "safe_float (sheet_rows st ! i ! 5) = Inr p"
    and "\<not> is_buyer t" and "q < qty t"
  shows "\<exists>st'. process_trade c st t = Inr st'
           \<and> sheet_rows st' = sheet_rows st
           \<and> portfolio_map st' = portfolio_map st
           \<and> modified_symbols st' = modified_symbols st
           \<and> logged st' = logged st @ [Warning_sell_skipped (symbol t) (qty t) q]
           \<and> process_trades c st (t # rest) = process_trades c st' rest"
proof -
  from assms(8,9) have "existing_position t a q p = None"
    by (simp add: existing_position_def)
  with process_trade_existing [OF assms(1-7)]
  have "process_trade c st t
        = Inr (st\<lparr>logged := logged st @ [Warning_sell_skipped (symbol t) (qty t) q]\<rparr>)"
    by simp
  then show ?thesis by simp
qed

theorem overdraft_sell_rejected_witness:
  "strptime ''2024-01-02 00:00:00'' = Inr (2024, 1, 2, 0, 0, 0)
   \<and> \<not> (2024, 1, 2, 0, 0, 0) \<le> datetime_min
   \<and> safe_float ''10,00000000'' = Inr 10 \<and> safe_float ''1,00000000'' = Inr 1
   \<and> safe_float ''0,00000000'' = Inr 0
   \<and> process_trade datetime_min
         \<lparr>sheet_rows = [header, [''X'', ''10,00000000'', ''1,00000000'', ''2024-01-01 00:00:00'',
                                    ''10,00000000'', ''0,00000000'']],
          portfolio_map = [''X'' \<mapsto> 1], modified_symbols = {}, logged = []\<rparr>
         \<lparr>symbol = ''X'', price = 30, qty = 5, time = ''2024-01-02 00:00:00'', is_buyer = False\<rparr>
       = Inr \<lparr>sheet_rows = [header, [''X'', ''10,00000000'', ''1,00000000'',
                                         ''2024-01-01 00:00:00'', ''10,00000000'', ''0,00000000'']],
               portfolio_map = [''X'' \<mapsto> 1], modified_symbols = {},
               logged = [Warning_sell_skipped ''X'' 5 1]\<rparr>"
proof -
  let ?st = "\<lparr>sheet_rows = [header, [''X'', ''10,00000000'', ''1,00000000'', ''2024-01-01 00:00:00'',
                                    ''10,00000000'', ''0,00000000'']],
          portfolio_map = [''X'' \<mapsto> 1::nat], modified_symbols = {}, logged = []\<rparr>"
  let ?t = "\<lparr>symbol = ''X'', price = 30, qty = 5, time = ''2024-01-02 00:00:00'', is_buyer = False\<rparr>"
  have d: "strptime (time ?t) = Inr (2024, 1, 2, 0, 0, 0)" by (simp add: time_eval)
  have late: "\<not> (2024, 1, 2, 0, 0, 0) \<le> datetime_min" by (simp add: datetime_min_def)
  have m: "portfolio_map ?st (symbol ?t) = Some 1" by simp
  have len: "5 < length (sheet_rows ?st ! 1)" by simp
  have a: "safe_float (sheet_rows ?st ! 1 ! 1) = Inr 10" by (simp add: parse_eval)
  have q: "safe_float (sheet_rows ?st ! 1 ! 2) = Inr 1" by (simp add: parse_eval)
  have p: "safe_float (sheet_rows ?st ! 1 ! 5) = Inr 0" by (simp add: parse_eval)
  have s: "\<not> is_buyer ?t" and o: "1 < qty ?t" by simp_all
  from overdraft_sell_rejected [OF d late m len a q p s o, of "[]"]
  obtain st' where "process_trade datetime_min ?st ?t = Inr st'"
    and "sheet_rows st' = sheet_rows ?st" and "portfolio_map st' = portfolio_map ?st"
    and "modified_symbols st' = modified_symbols ?st"
    and "logged st' = logged ?st @ [Warning_sell_skipped (symbol ?t) (qty ?t) 1]"
    by blast
  then have "process_trade datetime_min ?st ?t
             = Inr \<lparr>sheet_rows = sheet_rows ?st, portfolio_map = portfolio_map ?st,
                     modified_symbols = {}, logged = [Warning_sell_skipped ''X'' 5 1]\<rparr>"
    by (cases st') simp
  with d late a q p show ?thesis by simp
qed

section \<open>Quantities after a trade\<close>

lemma update_row_cells:
  assumes "5 < length row"
  shows "update_row row d m ! 1 = format_decimal (final_avg_price m)"
    and "update_row row d m ! 2 = format_decimal (final_qty m)"
    and "update_row row d m ! 4 = format_decimal (final_break_even m)"
    and "update_row row d m ! 5 = format_decimal (new_realized_pnl m)"
    and "length (update_row row d m) = length row"
  using assms by (simp_all add: update_row_def)

lemma held_qty_updated:
  assumes "portfolio_map st s = Some i" and "i < length (sheet_rows st)"
    and "5 < length (sheet_rows st ! i)"
  shows "held_qty (st\<lparr>sheet_rows := (sheet_rows st)[i := update_row (sheet_rows st ! i) d m],
                       modified_symbols := ms\<rparr>) s
         = Some (round8 (final_qty m))"
  using assms by (simp add: held_qty_def update_row_cells safe_float_format_decimal)

lemma held_qty_created:
  "held_qty (st\<lparr>sheet_rows := sheet_rows st @ [new_row s d m],
                 portfolio_map := (portfolio_map st)(s \<mapsto> length (sheet_rows st)),
                 modified_symbols := ms\<rparr>) s
   = Some (round8 (final_qty m))"
  by (simp add: held_qty_def new_row_def safe_float_format_decimal)

lemma held_qty_logged: "held_qty (st\<lparr>logged := l\<rparr>) s = held_qty st s"
  by (simp add: held_qty_def split: option.split)

lemma round8_neg_imp_neg: "round8 x < 0 \<Longrightarrow> x < 0"
  using round8_nonneg [of x] by (cases "x < 0") simp_all

lemma existing_sell_final_qty:
  assumes "existing_position t a q p = Some m" and "\<not> is_buyer t"
  shows "0 \<le> final_qty m" and "final_qty m = q - qty t"
  using assms by (auto simp: existing_position_def Let_def split: if_splits)

lemma existing_buy_final_qty:
  assumes "existing_position t a q p = Some m" and "is_buyer t"
  shows "final_qty m = q + qty t"
  using assms by (auto simp: existing_position_def Let_def split: if_splits)

text \<open>
  Claim C10. A sell applied to a symbol that has a row never leaves a negative quantity,
  and a row whose quantity is zero or negative rejects every sell of positive quantity,
  which then changes nothing. With positive trade quantities, a symbol's row holds a
  negative quantity after a trade only if the trade was a sell that created the row, or if
  the row held a negative quantity before and the trade was a buy or changed nothing: no
  sell makes an existing short position larger.
\<close>

theorem sells_never_go_short:
  assumes "wf_state st" and "process_trade c st t = Inr st'"
  shows "(\<not> is_buyer t \<and> existing_position t a q p = Some m \<longrightarrow> 0 \<le> final_qty m)
    \<and> (\<not> is_buyer t \<and> portfolio_map st (symbol t) \<noteq> None \<longrightarrow>
         sheet_rows st' = sheet_rows st
         \<or> (\<exists>q'. held_qty st' (symbol t) = Some q' \<and> 0 \<le> q'))
    \<and> (\<not> is_buyer t \<and> held_qty st (symbol t) = Some q \<and> q \<le> 0 \<and> 0 < qty t \<longrightarrow>
         sheet_rows st' = sheet_rows st \<and> portfolio_map st' = portfolio_map st
         \<and> modified_symbols st' = modified_symbols st)
    \<and> (0 < qty t \<and> held_qty st' (symbol t) = Some q' \<and> q' < 0 \<longrightarrow>
         (portfolio_map st (symbol t) = None \<and> \<not> is_buyer t)
         \<or> (\<exists>q0. held_qty st (symbol t) = Some q0 \<and> q0 < 0
                  \<and> (is_buyer t \<or> sheet_rows st' = sheet_rows st)))"
proof -
  have A: "\<not> is_buyer t \<and> existing_position t a q p = Some m \<longrightarrow> 0 \<le> final_qty m"
    using existing_sell_final_qty(1) by blast
  have B: "sheet_rows st' = sheet_rows st \<or> (\<exists>q'. held_qty st' (symbol t) = Some q' \<and> 0 \<le> q')"
    if sell: "\<not> is_buyer t" and ex: "portfolio_map st (symbol t) \<noteq> None"
    using assms(2)
  proof (cases rule: process_trade_cases)
    case (created d)
    with ex show ?thesis by simp
  next
    case (updated d i a0 q0 p0 m0)
    from assms(1) updated(3) have i: "i < length (sheet_rows st)" by (simp add: wf_state_def)
    from updated(9) have "held_qty st' (symbol t) = Some (round8 (final_qty m0))"
      using held_qty_updated [OF updated(3) i updated(4)] by simp
    moreover from existing_sell_final_qty(1) [OF updated(8) sell]
    have "0 \<le> round8 (final_qty m0)" by (rule round8_nonneg)
    ultimately show ?thesis by blast
  qed simp_all
  have C: "sheet_rows st' = sheet_rows st \<and> portfolio_map st' = portfolio_map st
           \<and> modified_symbols st' = modified_symbols st"
    if sell: "\<not> is_buyer t" and h: "held_qty st (symbol t) = Some q" and q: "q \<le> 0"
      and pos: "0 < qty t"
    using assms(2)
  proof (cases rule: process_trade_cases)
    case (created d)
    with h show ?thesis by (simp add: held_qty_def)
  next
    case (updated d i a0 q0 p0 m0)
    from h updated(3,6) have "q0 = q" by (simp add: held_qty_def)
    with updated(8) sell q pos show ?thesis
      by (simp add: existing_position_def split: if_splits)
  qed simp_all
  have D: "(portfolio_map st (symbol t) = None \<and> \<not> is_buyer t)
         \<or> (\<exists>q0. held_qty st (symbol t) = Some q0 \<and> q0 < 0
                  \<and> (is_buyer t \<or> sheet_rows st' = sheet_rows st))"
    if pos: "0 < qty t" and h: "held_qty st' (symbol t) = Some q'" and neg: "q' < 0"
    using assms(2)
  proof (cases rule: process_trade_cases)
    case (skipped d)
    with h neg show ?thesis by auto
  next
    case (created d)
    from h created(4) have "q' = round8 (final_qty (new_position t))"
      using held_qty_created [where st = st and s = "symbol t" and d = d and m = "new_position t"]
      by simp
    with neg have "final_qty (new_position t) < 0" by (simp add: round8_neg_imp_neg)
    with pos have "\<not> is_buyer t" by (auto simp: new_position_def Let_def split: if_splits)
    with created(3) show ?thesis by simp
  next
    case (rejected d i a0 q0 p0)
    with h neg show ?thesis by (auto simp: held_qty_logged)
  next
    case (updated d i a0 q0 p0 m0)
    from assms(1) updated(3) have i: "i < length (sheet_rows st)" by (simp add: wf_state_def)
    from updated(9) h have "q' = round8 (final_qty m0)"
      using held_qty_updated [OF updated(3) i updated(4)] by simp
    with neg have fneg: "final_qty m0 < 0" by (simp add: round8_neg_imp_neg)
    have buy: "is_buyer t"
    proof (rule ccontr)
      assume "\<not> is_buyer t"
      from existing_sell_final_qty(1) [OF updated(8) this] fneg show False by simp
    qed
    from existing_buy_final_qty [OF updated(8) buy] fneg pos have "q0 < 0" by simp
    moreover from updated(3,6) have "held_qty st (symbol t) = Some q0"
      by (simp add: held_qty_def)
    ultimately show ?thesis using buy by blast
  qed
  from A B C D show ?thesis by blast
qed

theorem sells_never_go_short_witness:
  "let st = \<lparr>sheet_rows = [header, [''X'', ''10,00000000'', ''-5,00000000'',
                                      ''2024-01-01 00:00:00'', ''10,00000000'', ''0,00000000'']],
              portfolio_map = [''X'' \<mapsto> 1], modified_symbols = {}, logged = []\<rparr>;
       t = \<lparr>symbol = ''X'', price = 12, qty = 1, time = ''2024-01-02 00:00:00'',
            is_buyer = False\<rparr>;
       st' = st\<lparr>logged := [Warning_sell_skipped ''X'' 1 (- 5)]\<rparr>
   in wf_state st \<and> process_trade datetime_min st t = Inr st'
      \<and> \<not> is_buyer t \<and> held_qty st (symbol t) = Some (- 5) \<and> (- 5 :: real) \<le> 0 \<and> 0 < qty t
      \<and> sheet_rows st' = sheet_rows st \<and> portfolio_map st' = portfolio_map st
      \<and> modified_symbols st' = modified_symbols st"
proof -
  let ?st = "\<lparr>sheet_rows = [header, [''X'', ''10,00000000'', ''-5,00000000'',
                                      ''2024-01-01 00:00:00'', ''10,00000000'', ''0,00000000'']],
              portfolio_map = [''X'' \<mapsto> 1::nat], modified_symbols = {}, logged = []\<rparr>"
  let ?t = "\<lparr>symbol = ''X'', price = 12, qty = 1, time = ''2024-01-02 00:00:00'',
            is_buyer = False\<rparr>"
  let ?st' = "?st\<lparr>logged := [Warning_sell_skipped ''X'' 1 (- 5)]\<rparr>"
  have wf: "wf_state ?st" by (simp add: wf_state_def)
  have pt: "process_trade datetime_min ?st ?t = Inr ?st'"
    by (simp add: run_eval time_eval datetime_min_def parse_eval)
  have h: "held_qty ?st (symbol ?t) = Some (- 5)" by (simp add: held_qty_def parse_eval)
  have s: "\<not> is_buyer ?t" and q: "(- 5 :: real) \<le> 0" and pos: "0 < qty ?t" by simp_all
  from sells_never_go_short [OF wf pt, of 0 "- 5" 0 undefined 0] s h q pos
  have "sheet_rows ?st' = sheet_rows ?st \<and> portfolio_map ?st' = portfolio_map ?st
        \<and> modified_symbols ?st' = modified_symbols ?st"
    by blast
  with wf pt s h q pos show ?thesis unfolding Let_def by blast
qed

section \<open>The outcome of a run of the loop\<close>

lemma held_qty_same_ledger: "same_ledger sa sb \<Longrightarrow> held_qty sa s = held_qty sb s"
  by (simp add: same_ledger_def held_qty_def split: option.split)

lemma accepted_same_ledger: "same_ledger sa sb \<Longrightarrow> accepted c sa t = accepted c sb t"
  by (simp add: accepted_def overdraft_def held_qty_same_ledger)

lemma same_ledger_refl: "same_ledger st st"
  by (simp add: same_ledger_def)

lemma same_ledger_trans: "same_ledger sa sb \<Longrightarrow> same_ledger sb sc \<Longrightarrow> same_ledger sa sc"
  by (simp add: same_ledger_def)

lemma process_trade_not_accepted:
  assumes "process_trade c st t = Inr st1" and "\<not> accepted c st t"
  shows "same_ledger st1 st"
  using assms(1)
proof (cases rule: process_trade_cases)
  case (created d)
  then have "accepted c st t"
    by (simp add: accepted_def passes_cutoff_def overdraft_def held_qty_def)
  with assms(2) show ?thesis by simp
next
  case (updated d i a q p m)
  from updated(3,6) have "held_qty st (symbol t) = Some q" by (simp add: held_qty_def)
  moreover from updated(8) have "is_buyer t \<or> \<not> q < qty t"
    by (auto simp: existing_position_def split: if_splits)
  ultimately have "accepted c st t"
    using updated(1,2) by (auto simp: accepted_def passes_cutoff_def overdraft_def)
  with assms(2) show ?thesis by simp
qed (simp_all add: same_ledger_def)

lemma process_trade_accepted:
  assumes "process_trade c st t = Inr st1" and "accepted c st t"
  shows "modified_symbols st1 = insert (symbol t) (modified_symbols st)"
  using assms(1)
proof (cases rule: process_trade_cases)
  case (skipped d)
  with assms(2) show ?thesis by (simp add: accepted_def passes_cutoff_def)
next
  case (rejected d i a q p)
  from rejected(3,6) have "held_qty st (symbol t) = Some q" by (simp add: held_qty_def)
  moreover from rejected(8) have "\<not> is_buyer t \<and> q < qty t"
    by (auto simp: existing_position_def Let_def split: if_splits)
  ultimately have "overdraft st t" by (simp add: overdraft_def)
  with assms(2) show ?thesis by (simp add: accepted_def)
qed simp_all

lemma process_trade_same_ledger:
  assumes "same_ledger sa sb" and "process_trade c sa t = Inr sa1"
  shows "\<exists>sb1. process_trade c sb t = Inr sb1 \<and> same_ledger sa1 sb1"
proof -
  from assms(1) have eq: "sheet_rows sb = sheet_rows sa" "portfolio_map sb = portfolio_map sa"
    "modified_symbols sb = modified_symbols sa"
    by (simp_all add: same_ledger_def)
  from assms(2) show ?thesis
  proof (cases rule: process_trade_cases)
    case (skipped d)
    with assms(1) show ?thesis by (simp add: process_trade_skipped)
  next
    case (created d)
    from created(3) eq have "portfolio_map sb (symbol t) = None" by simp
    from process_trade_created [OF created(1,2) this] created(4) eq show ?thesis
      by (simp add: same_ledger_def)
  next
    case (rejected d i a q p)
    from rejected(3-7) eq have "portfolio_map sb (symbol t) = Some i"
      and "5 < length (sheet_rows sb ! i)"
      and "safe_float (sheet_rows sb ! i ! 1) = Inr a"
      and "safe_float (sheet_rows sb ! i ! 2) = Inr q"
      and "safe_float (sheet_rows sb ! i ! 5) = Inr p"
      by simp_all
    from process_trade_existing [OF rejected(1,2) this] rejected(8,9) eq show ?thesis
      by (simp add: same_ledger_def)
  next
    case (updated d i a q p m)
    from updated(3-7) eq have "portfolio_map sb (symbol t) = Some i"
      and "5 < length (sheet_rows sb ! i)"
      and "safe_float (sheet_rows sb ! i ! 1) = Inr a"
      and "safe_float (sheet_rows sb ! i ! 2) = Inr q"
      and "safe_float (sheet_rows sb ! i ! 5) = Inr p"
      by simp_all
    from process_trade_existing [OF updated(1,2) this] updated(8,9) eq show ?thesis
      by (simp add: same_ledger_def)
  qed
qed

lemma modified_symbols_process_trades:
  assumes "process_trades c st ts = Inr st'"
  shows "modified_symbols st' = modified_symbols st \<union> symbol ` set (accepted_trades c st ts)"
  using assms
proof (induction ts arbitrary: st)
  case Nil
  then show ?case by simp
next
  case (Cons t ts)
  from Cons.prems obtain st1 where st1: "process_trade c st t = Inr st1"
    and rest: "process_trades c st1 ts = Inr st'"
    by (auto split: sum.splits)
  note ih = Cons.IH [OF rest]
  show ?case
  proof (cases "accepted c st t")
    case True
    from process_trade_accepted [OF st1 True] ih st1 True show ?thesis by auto
  next
    case False
    from process_trade_not_accepted [OF st1 False] have "modified_symbols st1 = modified_symbols st"
      by (simp add: same_ledger_def)
    with ih st1 False show ?thesis by simp
  qed
qed

lemma replay_accepted_trades:
  assumes "same_ledger sa sb" and "process_trades c sa ts = Inr sa'"
  shows "\<exists>sb'. process_trades c sb (accepted_trades c sa ts) = Inr sb' \<and> same_ledger sb' sa'"
  using assms
proof (induction ts arbitrary: sa sb)
  case Nil
  then show ?case by (simp add: same_ledger_def)
next
  case (Cons t ts)
  from Cons.prems(2) obtain sa1 where sa1: "process_trade c sa t = Inr sa1"
    and rest: "process_trades c sa1 ts = Inr sa'"
    by (auto split: sum.splits)
  show ?case
  proof (cases "accepted c sa t")
    case True
    from process_trade_same_ledger [OF Cons.prems(1) sa1]
    obtain sb1 where sb1: "process_trade c sb t = Inr sb1" and same: "same_ledger sa1 sb1"
      by blast
    from Cons.IH [OF same rest] sa1 sb1 True show ?thesis by simp
  next
    case False
    from process_trade_not_accepted [OF sa1 False] Cons.prems(1)
    have "same_ledger sa1 sb" by (rule same_ledger_trans)
    from Cons.IH [OF this rest] sa1 False show ?thesis by simp
  qed
qed

lemma read_trade_data_sorted:
  assumes "read_trade_data f = Inr (trs, lg)"
  shows "sorted (map time_key trs)"
  using assms by (auto simp: read_trade_data_def split: prod.splits if_splits)

text \<open>
  Claim C6, as stated, does not hold in its first part: a symbol whose only trade after
  the cutoff is a rejected sell is not reported as modified. In the run below the ledger
  holds 1 unit of X and the only trade, which passes the cutoff filter, sells 5; the
  ledger is written back as it was and the report of modified symbols is empty.
\<close>

theorem modified_set_counterexample:
  "update_portfolio
     \<lparr>raw_data_file = Some [''symbol,price,qty,time,isBuyer'',
                            ''X,30,5,2024-01-02 00:00:00,False''],
      portfolio_csv = Some [header, [''X'', ''10,00000000'', ''1,00000000'',
                                     ''2024-01-01 00:00:00'', ''10,00000000'', ''0,00000000'']],
      last_sync_file = None, modified_log_file = None,
      csv_writable = True, log_writable = True,
      csv_after_failure = None, log_after_failure = None\<rparr>
   = Inr (\<lparr>raw_data_file = Some [''symbol,price,qty,time,isBuyer'',
                                  ''X,30,5,2024-01-02 00:00:00,False''],
            portfolio_csv = Some [header, [''X'', ''10,00000000'', ''1,00000000'',
                                           ''2024-01-01 00:00:00'', ''10,00000000'',
                                           ''0,00000000'']],
            last_sync_file = None, modified_log_file = Some [],
            csv_writable = True, log_writable = True,
      csv_after_failure = None, log_after_failure = None\<rparr>,
          [Info_processing 1, Warning_sell_skipped ''X'' 5 1, Info_portfolio_updated,
           Info_change_log_saved])
   \<and> passes_cutoff datetime_min
        \<lparr>symbol = ''X'', price = 30, qty = 5, time = ''2024-01-02 00:00:00'', is_buyer = False\<rparr>"
proof -
  have r: "read_trade_data (Some [''symbol,price,qty,time,isBuyer'',
                                  ''X,30,5,2024-01-02 00:00:00,False''])
           = Inr ([\<lparr>symbol = ''X'', price = 30, qty = 5, time = ''2024-01-02 00:00:00'',
                     is_buyer = False\<rparr>], [])"
    by (simp add: read_trade_data_def parse_trade_line_def py_float_def strip_def is_space_def
          is_digit_def nat_of_digits_def digit_val_def time_eval)
  have p: "safe_float ''10,00000000'' = Inr 10" "safe_float ''1,00000000'' = Inr 1"
    "safe_float ''0,00000000'' = Inr 0"
    by (simp_all add: parse_eval)
  have u: "update_portfolio
     \<lparr>raw_data_file = Some [''symbol,price,qty,time,isBuyer'',
                            ''X,30,5,2024-01-02 00:00:00,False''],
      portfolio_csv = Some [header, [''X'', ''10,00000000'', ''1,00000000'',
                                     ''2024-01-01 00:00:00'', ''10,00000000'', ''0,00000000'']],
      last_sync_file = None, modified_log_file = None,
      csv_writable = True, log_writable = True,
      csv_after_failure = None, log_after_failure = None\<rparr>
   = Inr (\<lparr>raw_data_file = Some [''symbol,price,qty,time,isBuyer'',
                                  ''X,30,5,2024-01-02 00:00:00,False''],
            portfolio_csv = Some [header, [''X'', ''10,00000000'', ''1,00000000'',
                                           ''2024-01-01 00:00:00'', ''10,00000000'',
                                           ''0,00000000'']],
            last_sync_file = None, modified_log_file = Some [],
            csv_writable = True, log_writable = True,
      csv_after_failure = None, log_after_failure = None\<rparr>,
          [Info_processing 1, Warning_sell_skipped ''X'' 5 1, Info_portfolio_updated,
           Info_change_log_saved])"
    by (simp add: r p update_portfolio_def read_cutoff_def load_sheet_def write_results_def
          run_eval time_eval datetime_min_def)
  have "passes_cutoff datetime_min
        \<lparr>symbol = ''X'', price = 30, qty = 5, time = ''2024-01-02 00:00:00'', is_buyer = False\<rparr>"
    by (simp add: passes_cutoff_def time_eval datetime_min_def)
  with u show ?thesis by simp
qed

text \<open>
  Claim C6, amended. After the loop has run over the trades, the set of modified symbols
  has grown by exactly the symbols of the accepted trades, those that pass the cutoff
  filter and are not rejected as overdrafts. Running the loop over the accepted trades
  alone, in their order, gives the same ledger, so the ledger is the cumulative effect of
  the accepted trades; a trade that is not accepted leaves the ledger as it is. The trades
  that \<open>read_trade_data\<close> hands to the loop are sorted by time.
\<close>

theorem ledger_reflects_accepted_trades:
  assumes "process_trades c st ts = Inr st'"
  shows "modified_symbols st' = modified_symbols st \<union> symbol ` set (accepted_trades c st ts)
    \<and> (\<exists>st''. process_trades c st (accepted_trades c st ts) = Inr st''
              \<and> same_ledger st'' st')
    \<and> (process_trade c st0 t = Inr st1 \<and> \<not> accepted c st0 t \<longrightarrow> same_ledger st1 st0)
    \<and> (read_trade_data f = Inr (trs, lg) \<longrightarrow> sorted (map time_key trs))"
proof (intro conjI impI)
  show "modified_symbols st' = modified_symbols st \<union> symbol ` set (accepted_trades c st ts)"
    by (rule modified_symbols_process_trades [OF assms])
  show "\<exists>st''. process_trades c st (accepted_trades c st ts) = Inr st'' \<and> same_ledger st'' st'"
    by (rule replay_accepted_trades [OF same_ledger_refl assms])
  show "same_ledger st1 st0" if "process_trade c st0 t = Inr st1 \<and> \<not> accepted c st0 t"
    using that process_trade_not_accepted [of c st0 t st1] by simp
  show "sorted (map time_key trs)" if "read_trade_data f = Inr (trs, lg)"
    using that by (rule read_trade_data_sorted)
qed

theorem ledger_reflects_accepted_trades_witness:
  "let st = \<lparr>sheet_rows = [header, [''X'', ''10,00000000'', ''1,00000000'',
                                      ''2024-01-01 00:00:00'', ''10,00000000'', ''0,00000000'']],
              portfolio_map = [''X'' \<mapsto> 1], modified_symbols = {}, logged = []\<rparr>;
       t1 = \<lparr>symbol = ''X'', price = 30, qty = 5, time = ''2024-01-02 00:00:00'',
             is_buyer = False\<rparr>;
       t2 = \<lparr>symbol = ''X'', price = 20, qty = 1, time = ''2024-01-03 00:00:00'',
             is_buyer = True\<rparr>;
       st' = \<lparr>sheet_rows = [header, [''X'', ''15,00000000'', ''2,00000000'',
                                       ''2024-01-03 00:00:00'', ''15,00000000'', ''0,00000000'']],
               portfolio_map = [''X'' \<mapsto> 1], modified_symbols = {''X''},
               logged = [Warning_sell_skipped ''X'' 5 1]\<rparr>
   in process_trades datetime_min st [t1, t2] = Inr st'
      \<and> accepted_trades datetime_min st [t1, t2] = [t2]
      \<and> modified_symbols st' = modified_symbols st \<union> symbol ` set [t2]
      \<and> (\<exists>st''. process_trades datetime_min st [t2] = Inr st'' \<and> same_ledger st'' st')"
proof -
  let ?st = "\<lparr>sheet_rows = [header, [''X'', ''10,00000000'', ''1,00000000'',
                                      ''2024-01-01 00:00:00'', ''10,00000000'', ''0,00000000'']],
              portfolio_map = [''X'' \<mapsto> 1::nat], modified_symbols = {}, logged = []\<rparr>"
  let ?t1 = "\<lparr>symbol = ''X'', price = 30, qty = 5, time = ''2024-01-02 00:00:00'',
             is_buyer = False\<rparr>"
  let ?t2 = "\<lparr>symbol = ''X'', price = 20, qty = 1, time = ''2024-01-03 00:00:00'',
             is_buyer = True\<rparr>"
  let ?st1 = "?st\<lparr>logged := [Warning_sell_skipped ''X'' 5 1]\<rparr>"
  let ?st' = "\<lparr>sheet_rows = [header, [''X'', ''15,00000000'', ''2,00000000'',
                                       ''2024-01-03 00:00:00'', ''15,00000000'', ''0,00000000'']],
               portfolio_map = [''X'' \<mapsto> 1::nat], modified_symbols = {''X''},
               logged = [Warning_sell_skipped ''X'' 5 1]\<rparr>"
  have p: "safe_float ''10,00000000'' = Inr 10" "safe_float ''1,00000000'' = Inr 1"
    "safe_float ''0,00000000'' = Inr 0"
    by (simp_all add: parse_eval)
  have f: "format_decimal 15 = ''15,00000000''" "format_decimal 2 = ''2,00000000''"
    "format_decimal 0 = ''0,00000000''"
    by (simp_all add: fmt_eval)
  have s1: "process_trade datetime_min ?st ?t1 = Inr ?st1"
    by (simp add: run_eval time_eval datetime_min_def p)
  have s2: "process_trade datetime_min ?st1 ?t2 = Inr ?st'"
    by (simp add: run_eval time_eval datetime_min_def p f)
  from s1 s2 have pt: "process_trades datetime_min ?st [?t1, ?t2] = Inr ?st'" by simp
  have a1: "\<not> accepted datetime_min ?st ?t1"
    by (simp add: accepted_def overdraft_def held_qty_def p)
  have a2: "accepted datetime_min ?st1 ?t2"
    by (simp add: accepted_def overdraft_def passes_cutoff_def time_eval datetime_min_def)
  from s1 s2 a1 a2 have acc: "accepted_trades datetime_min ?st [?t1, ?t2] = [?t2]" by simp
  note th = ledger_reflects_accepted_trades [OF pt, unfolded acc]
  from th have m: "modified_symbols ?st' = modified_symbols ?st \<union> symbol ` set [?t2]"
    by (rule conjunct1)
  from th have r: "\<exists>st''. process_trades datetime_min ?st [?t2] = Inr st''
      \<and> same_ledger st'' ?st'"
    by (rule conjunct2 [THEN conjunct1])
  from pt acc m r show ?thesis
    unfolding Let_def by (intro conjI)
qed

section \<open>Failing writes\<close>

text \<open>
  Claim C7, as stated, does not hold in its first part: an I/O error on writing the ledger
  is caught and logged, and the run returns normally. In the run below the ledger did not
  exist and writing it fails after the file has been opened, which leaves an empty file;
  \<open>update_portfolio\<close> raises nothing, logs the error and writes the report of modified
  symbols.
\<close>

theorem ledger_write_failure_counterexample:
  "update_portfolio
     \<lparr>raw_data_file = Some [''symbol,price,qty,time,isBuyer'',
                            ''X,10,1,2024-01-02 00:00:00,True''],
      portfolio_csv = None, last_sync_file = None, modified_log_file = None,
      csv_writable = False, log_writable = True,
      csv_after_failure = Some [], log_after_failure = None\<rparr>
   = Inr (\<lparr>raw_data_file = Some [''symbol,price,qty,time,isBuyer'',
                                  ''X,10,1,2024-01-02 00:00:00,True''],
            portfolio_csv = Some [], last_sync_file = None, modified_log_file = Some ''X'',
            csv_writable = False, log_writable = True,
            csv_after_failure = Some [], log_after_failure = None\<rparr>,
          [Info_processing 1, Error_csv_write_failed, Info_change_log_saved])"
proof -
  have r: "read_trade_data (Some [''symbol,price,qty,time,isBuyer'',
                                  ''X,10,1,2024-01-02 00:00:00,True''])
           = Inr ([\<lparr>symbol = ''X'', price = 10, qty = 1, time = ''2024-01-02 00:00:00'',
                     is_buyer = True\<rparr>], [])"
    by (simp add: read_trade_data_def parse_trade_line_def py_float_def strip_def is_space_def
          is_digit_def nat_of_digits_def digit_val_def time_eval)
  show ?thesis
    by (simp add: r update_portfolio_def read_cutoff_def load_sheet_def write_results_def
          run_eval time_eval datetime_min_def)
qed

lemma update_portfolio_written:
  assumes "update_portfolio (fs\<lparr>csv_writable := cw, log_writable := lw\<rparr>) = Inr (fs', lg)"
  shows "\<exists>st :: run_state. update_portfolio (fs\<lparr>csv_writable := True, log_writable := True\<rparr>)
               = Inr (fs\<lparr>csv_writable := True, log_writable := True,
                         portfolio_csv := Some (sheet_rows st),
                         modified_log_file :=
                           Some (join '', '' (sorted_list_of_set (modified_symbols st)))\<rparr>,
                      logged st @ [Info_portfolio_updated, Info_change_log_saved])
          \<and> lg = logged st @ (if cw then [Info_portfolio_updated] else [Error_csv_write_failed])
                 @ (if lw then [Info_change_log_saved] else [])
          \<and> (cw \<longrightarrow> portfolio_csv fs' = Some (sheet_rows st))
          \<and> (lw \<longrightarrow> modified_log_file fs'
                      = Some (join '', '' (sorted_list_of_set (modified_symbols st))))"
  using assms
  by (auto simp: update_portfolio_def bind_err_def Let_def write_results_def
      split: sum.splits prod.splits if_splits)

text \<open>
  Claim C7, amended. Whether the ledger and the report can be written has no influence on
  whether the run raises. When the run returns, it has logged what it logs when both
  writes succeed, except that a ledger that could not be written is logged as an error
  where the success would be logged, and a report that could not be written is passed over
  in silence. A failure to write the ledger does not keep the run from writing the report,
  and the report then is the one of the run in which the ledger is written.
\<close>

theorem write_failures_do_not_abort:
  "(update_portfolio (fs\<lparr>csv_writable := cw, log_writable := lw\<rparr>) = Inl e
      \<longleftrightarrow> update_portfolio fs = Inl e)
   \<and> (update_portfolio (fs\<lparr>csv_writable := cw, log_writable := lw\<rparr>) = Inr (fs', lg) \<longrightarrow>
        (\<exists>st :: run_state. update_portfolio (fs\<lparr>csv_writable := True, log_writable := True\<rparr>)
                = Inr (fs\<lparr>csv_writable := True, log_writable := True,
                          portfolio_csv := Some (sheet_rows st),
                          modified_log_file :=
                            Some (join '', '' (sorted_list_of_set (modified_symbols st)))\<rparr>,
                       logged st @ [Info_portfolio_updated, Info_change_log_saved])
           \<and> lg = logged st
                  @ (if cw then [Info_portfolio_updated] else [Error_csv_write_failed])
                  @ (if lw then [Info_change_log_saved] else [])
           \<and> (cw \<longrightarrow> portfolio_csv fs' = Some (sheet_rows st))
           \<and> (lw \<longrightarrow> modified_log_file fs'
                       = Some (join '', '' (sorted_list_of_set (modified_symbols st))))))"
proof -
  let ?fs = "fs\<lparr>csv_writable := cw, log_writable := lw\<rparr>"
  have a: "update_portfolio ?fs = Inl e \<longleftrightarrow> update_portfolio fs = Inl e"
    by (auto simp: update_portfolio_def bind_err_def Let_def split: sum.splits prod.splits)
  from a update_portfolio_written [where fs = fs and cw = cw and lw = lw and fs' = fs' and lg = lg]
  show ?thesis by blast
qed

theorem write_failures_do_not_abort_witness:
  "let fs = \<lparr>raw_data_file = Some [''symbol,price,qty,time,isBuyer'',
                                   ''X,10,1,2024-01-02 00:00:00,True''],
              portfolio_csv = None, last_sync_file = None, modified_log_file = None,
              csv_writable = True, log_writable = True,
              csv_after_failure = Some [], log_after_failure = None\<rparr>;
       fs' = fs\<lparr>csv_writable := False, portfolio_csv := Some [],
                modified_log_file := Some ''X''\<rparr>;
       lg = [Info_processing 1, Error_csv_write_failed, Info_change_log_saved]
   in update_portfolio (fs\<lparr>csv_writable := False, log_writable := True\<rparr>) = Inr (fs', lg)
      \<and> (\<exists>st :: run_state. update_portfolio (fs\<lparr>csv_writable := True, log_writable := True\<rparr>)
                = Inr (fs\<lparr>csv_writable := True, log_writable := True,
                          portfolio_csv := Some (sheet_rows st),
                          modified_log_file :=
                            Some (join '', '' (sorted_list_of_set (modified_symbols st)))\<rparr>,
                       logged st @ [Info_portfolio_updated, Info_change_log_saved])
           \<and> lg = logged st @ [Error_csv_write_failed] @ [Info_change_log_saved]
           \<and> modified_log_file fs'
               = Some (join '', '' (sorted_list_of_set (modified_symbols st))))"
proof -
  let ?fs = "\<lparr>raw_data_file = Some [''symbol,price,qty,time,isBuyer'',
                                   ''X,10,1,2024-01-02 00:00:00,True''],
              portfolio_csv = None, last_sync_file = None, modified_log_file = None,
              csv_writable = True, log_writable = True,
              csv_after_failure = Some [], log_after_failure = None\<rparr>"
  let ?fs' = "?fs\<lparr>csv_writable := False, portfolio_csv := Some [],
                 modified_log_file := Some ''X''\<rparr>"
  let ?lg = "[Info_processing 1, Error_csv_write_failed, Info_change_log_saved]"
  have r: "read_trade_data (Some [''symbol,price,qty,time,isBuyer'',
                                  ''X,10,1,2024-01-02 00:00:00,True''])
           = Inr ([\<lparr>symbol = ''X'', price = 10, qty = 1, time = ''2024-01-02 00:00:00'',
                     is_buyer = True\<rparr>], [])"
    by (simp add: read_trade_data_def parse_trade_line_def py_float_def strip_def is_space_def
          is_digit_def nat_of_digits_def digit_val_def time_eval)
  have u: "update_portfolio (?fs\<lparr>csv_writable := False, log_writable := True\<rparr>)
           = Inr (?fs', ?lg)"
    by (simp add: r update_portfolio_def read_cutoff_def load_sheet_def write_results_def
          run_eval time_eval datetime_min_def)
  note th = write_failures_do_not_abort
    [where fs = ?fs and cw = False and lw = True and fs' = ?fs' and lg = ?lg,
      THEN conjunct2, rule_format, OF u]
  then obtain st :: run_state
    where a: "update_portfolio (?fs\<lparr>csv_writable := True, log_writable := True\<rparr>)
                = Inr (?fs\<lparr>csv_writable := True, log_writable := True,
                          portfolio_csv := Some (sheet_rows st),
                          modified_log_file :=
                            Some (join '', '' (sorted_list_of_set (modified_symbols st)))\<rparr>,
                       logged st @ [Info_portfolio_updated, Info_change_log_saved])"
      and b: "?lg = logged st
                  @ (if False then [Info_portfolio_updated] else [Error_csv_write_failed])
                  @ (if True then [Info_change_log_saved] else [])"
      and c: "True \<longrightarrow> modified_log_file ?fs'
                       = Some (join '', '' (sorted_list_of_set (modified_symbols st)))"
    by blast
  from b have b': "?lg = logged st @ [Error_csv_write_failed] @ [Info_change_log_saved]"
    by simp
  from c have c': "modified_log_file ?fs'
                   = Some (join '', '' (sorted_list_of_set (modified_symbols st)))"
    by simp
  from a b' c' have "\<exists>st :: run_state. update_portfolio (?fs\<lparr>csv_writable := True, log_writable := True\<rparr>)
                = Inr (?fs\<lparr>csv_writable := True, log_writable := True,
                          portfolio_csv := Some (sheet_rows st),
                          modified_log_file :=
                            Some (join '', '' (sorted_list_of_set (modified_symbols st)))\<rparr>,
                       logged st @ [Info_portfolio_updated, Info_change_log_saved])
           \<and> ?lg = logged st @ [Error_csv_write_failed] @ [Info_change_log_saved]
           \<and> modified_log_file ?fs'
               = Some (join '', '' (sorted_list_of_set (modified_symbols st)))"
    by blast
  with u show ?thesis unfolding Let_def by blast
qed

section \<open>The cutoff\<close>
















section \<open>A sell for a symbol without a position\<close>

text \<open>
  Claim C1, as stated, does not hold: a sell for a symbol that has no row is not rejected.
  In the run below the ledger is absent and the only trade sells 5 units of \<open>X\<close> at 10;
  the ledger written holds a new row for \<open>X\<close> with quantity -5.
\<close>

theorem sell_without_position_counterexample:
  "update_portfolio
     \<lparr>raw_data_file = Some [''symbol,price,qty,time,isBuyer'',
                            ''X,10,5,2024-01-02 00:00:00,False''],
      portfolio_csv = None, last_sync_file = None, modified_log_file = None,
      csv_writable = True, log_writable = True,
      csv_after_failure = None, log_after_failure = None\<rparr>
   = Inr (\<lparr>raw_data_file = Some [''symbol,price,qty,time,isBuyer'',
                                  ''X,10,5,2024-01-02 00:00:00,False''],
            portfolio_csv = Some [header, [''X'', ''10,00000000'', ''-5,00000000'',
                                           ''2024-01-02 00:00:00'', ''10,00000000'',
                                           ''0,00000000'']],
            last_sync_file = None, modified_log_file = Some ''X'',
            csv_writable = True, log_writable = True,
            csv_after_failure = None, log_after_failure = None\<rparr>,
          [Info_processing 1, Info_portfolio_updated, Info_change_log_saved])"
proof -
  have r: "read_trade_data (Some [''symbol,price,qty,time,isBuyer'',
                                  ''X,10,5,2024-01-02 00:00:00,False''])
           = Inr ([\<lparr>symbol = ''X'', price = 10, qty = 5, time = ''2024-01-02 00:00:00'',
                     is_buyer = False\<rparr>], [])"
    by (simp add: read_trade_data_def parse_trade_line_def py_float_def strip_def is_space_def
          is_digit_def nat_of_digits_def digit_val_def time_eval)
  show ?thesis
    by (simp add: r update_portfolio_def read_cutoff_def load_sheet_def write_results_def
          run_eval time_eval datetime_min_def fmt_eval)
qed

lemma round8_minus_nonpos: "0 \<le> x \<Longrightarrow> round8 (- x) \<le> 0"
  by (rule round8_nonpos) simp

text \<open>
  Claim C1, amended. A sell that passes the cutoff, for a symbol that has no row, opens a
  short position: a row of six cells is appended that holds the symbol, the trade's price
  as average price, the negated trade quantity as quantity, the trade's time, a break-even
  price and the realized profit 0; the map points to the new row, the symbol is recorded as
  modified and nothing is logged. A price or a quantity that is zero is written as a zero.
  Read back, the quantity of the row is not positive when the trade quantity is not
  negative. The time is written as \<open>strftime\<close> writes it; the statement is made for the
  years of four digits.
\<close>

theorem sell_without_position_opens_short:
  assumes "strptime (time t) = Inr d" and "\<not> d \<le> c"
    and "portfolio_map st (symbol t) = None" and "\<not> is_buyer t"
  shows "\<exists>st' av qc tm be.
      process_trade c st t = Inr st'
    \<and> sheet_rows st' = sheet_rows st @ [[symbol t, av, qc, tm, be, format_decimal 0]]
    \<and> portfolio_map st' = (portfolio_map st)(symbol t \<mapsto> length (sheet_rows st))
    \<and> modified_symbols st' = insert (symbol t) (modified_symbols st)
    \<and> logged st' = logged st
    \<and> (price t \<noteq> 0 \<longrightarrow> av = format_decimal (price t))
    \<and> (price t = 0 \<longrightarrow> safe_float av = Inr 0)
    \<and> (qty t \<noteq> 0 \<longrightarrow> qc = format_decimal (- qty t))
    \<and> (qty t = 0 \<longrightarrow> safe_float qc = Inr 0 \<and> be = format_decimal 0)
    \<and> (1000 \<le> fst d \<longrightarrow> tm = strftime d)
    \<and> (\<exists>q'. held_qty st' (symbol t) = Some q' \<and> (0 \<le> qty t \<longrightarrow> q' \<le> 0))"
proof -
  let ?m = "new_position t"
  let ?st' = "st\<lparr>sheet_rows := sheet_rows st @ [new_row (symbol t) d ?m],
                  portfolio_map := (portfolio_map st)(symbol t \<mapsto> length (sheet_rows st)),
                  modified_symbols := insert (symbol t) (modified_symbols st)\<rparr>"
  have pt: "process_trade c st t = Inr ?st'"
    using assms(1-3) by (rule process_trade_created)
  from assms(4) have fq: "final_qty ?m = - qty t" and fa: "final_avg_price ?m = price t"
    and pnl: "new_realized_pnl ?m = 0"
    and be: "qty t = 0 \<longrightarrow> final_break_even ?m = 0"
    by (simp_all add: new_position_def Let_def)
  have row: "new_row (symbol t) d ?m
             = [symbol t, format_decimal (price t), format_decimal (- qty t), strftime d,
                format_decimal (final_break_even ?m), format_decimal 0]"
    by (simp add: new_row_def fq fa pnl)
  have z: "safe_float (format_decimal 0) = Inr 0"
    by (simp add: safe_float_format_decimal round8_zero)
  have h: "held_qty ?st' (symbol t) = Some (round8 (- qty t))"
    using held_qty_created [where st = st and s = "symbol t" and d = d and m = ?m]
    by (simp add: fq)
  have "process_trade c st t = Inr ?st'
    \<and> sheet_rows ?st'
        = sheet_rows st @ [[symbol t, format_decimal (price t), format_decimal (- qty t),
                            strftime d, format_decimal (final_break_even ?m),
                            format_decimal 0]]
    \<and> portfolio_map ?st' = (portfolio_map st)(symbol t \<mapsto> length (sheet_rows st))
    \<and> modified_symbols ?st' = insert (symbol t) (modified_symbols st)
    \<and> logged ?st' = logged st
    \<and> (price t \<noteq> 0 \<longrightarrow> format_decimal (price t) = format_decimal (price t))
    \<and> (price t = 0 \<longrightarrow> safe_float (format_decimal (price t)) = Inr 0)
    \<and> (qty t \<noteq> 0 \<longrightarrow> format_decimal (- qty t) = format_decimal (- qty t))
    \<and> (qty t = 0 \<longrightarrow> safe_float (format_decimal (- qty t)) = Inr 0
          \<and> format_decimal (final_break_even ?m) = format_decimal 0)
    \<and> (1000 \<le> fst d \<longrightarrow> strftime d = strftime d)
    \<and> (\<exists>q'. held_qty ?st' (symbol t) = Some q' \<and> (0 \<le> qty t \<longrightarrow> q' \<le> 0))"
  proof (intro conjI impI)
    show "process_trade c st t = Inr ?st'" by (rule pt)
    show "sheet_rows ?st'
        = sheet_rows st @ [[symbol t, format_decimal (price t), format_decimal (- qty t),
                            strftime d, format_decimal (final_break_even ?m),
                            format_decimal 0]]"
      by (simp add: row)
    show "safe_float (format_decimal (price t)) = Inr 0" if "price t = 0"
      using that z by simp
    show "safe_float (format_decimal (- qty t)) = Inr 0" if "qty t = 0"
      using that z by simp
    show "format_decimal (final_break_even ?m) = format_decimal 0" if "qty t = 0"
      using that be by simp
    show "\<exists>q'. held_qty ?st' (symbol t) = Some q' \<and> (0 \<le> qty t \<longrightarrow> q' \<le> 0)"
      using h round8_minus_nonpos [of "qty t"] by blast
  qed simp_all
  then show ?thesis by - (rule exI)+
qed

theorem sell_without_position_opens_short_witness:
  "let st = \<lparr>sheet_rows = [header], portfolio_map = Map.empty, modified_symbols = {},
              logged = []\<rparr>;
       t = \<lparr>symbol = ''X'', price = 10, qty = 5, time = ''2024-01-02 00:00:00'',
            is_buyer = False\<rparr>
   in strptime (time t) = Inr (2024, 1, 2, 0, 0, 0)
      \<and> \<not> (2024, 1, 2, 0, 0, 0) \<le> datetime_min
      \<and> portfolio_map st (symbol t) = None \<and> \<not> is_buyer t
      \<and> (\<exists>st' be. process_trade datetime_min st t = Inr st'
            \<and> sheet_rows st' = [header, [''X'', ''10,00000000'', ''-5,00000000'',
                                           ''2024-01-02 00:00:00'', be, ''0,00000000'']]
            \<and> portfolio_map st' = [''X'' \<mapsto> 1]
            \<and> modified_symbols st' = {''X''}
            \<and> (\<exists>q'. held_qty st' ''X'' = Some q' \<and> q' \<le> 0))"
proof -
  let ?st = "\<lparr>sheet_rows = [header], portfolio_map = Map.empty :: string \<rightharpoonup> nat,
              modified_symbols = {}, logged = []\<rparr>"
  let ?t = "\<lparr>symbol = ''X'', price = 10, qty = 5, time = ''2024-01-02 00:00:00'',
            is_buyer = False\<rparr>"
  let ?d = "(2024, 1, 2, 0, 0, 0) :: datetime"
  have d: "strptime (time ?t) = Inr ?d" by (simp add: time_eval)
  have late: "\<not> ?d \<le> datetime_min" by (simp add: datetime_min_def)
  have n: "portfolio_map ?st (symbol ?t) = None" and s: "\<not> is_buyer ?t" by simp_all
  have f: "format_decimal 10 = ''10,00000000''" "format_decimal (- 5) = ''-5,00000000''"
    "format_decimal 0 = ''0,00000000''"
    by (simp_all add: fmt_eval)
  have tm: "strftime ?d = ''2024-01-02 00:00:00''" by (simp add: time_eval)
  from sell_without_position_opens_short [OF d late n s]
  obtain st' av qc tm be
    where pt: "process_trade datetime_min ?st ?t = Inr st'"
      and rows: "sheet_rows st'
                 = sheet_rows ?st @ [[symbol ?t, av, qc, tm, be, format_decimal 0]]"
      and pm: "portfolio_map st' = (portfolio_map ?st)(symbol ?t \<mapsto> length (sheet_rows ?st))"
      and ms: "modified_symbols st' = insert (symbol ?t) (modified_symbols ?st)"
      and av: "price ?t \<noteq> 0 \<longrightarrow> av = format_decimal (price ?t)"
      and qc: "qty ?t \<noteq> 0 \<longrightarrow> qc = format_decimal (- qty ?t)"
      and tm': "1000 \<le> fst ?d \<longrightarrow> tm = strftime ?d"
      and hq: "\<exists>q'. held_qty st' (symbol ?t) = Some q' \<and> (0 \<le> qty ?t \<longrightarrow> q' \<le> 0)"
    by blast
  from av have av': "av = ''10,00000000''" by (simp add: f)
  from qc have qc': "qc = ''-5,00000000''" by (simp add: f)
  from tm' have tm'': "tm = ''2024-01-02 00:00:00''" by (simp add: tm [simplified])
  from rows have rows': "sheet_rows st' = [header, [''X'', ''10,00000000'', ''-5,00000000'',
                                           ''2024-01-02 00:00:00'', be, ''0,00000000'']]"
    by (simp add: av' qc' tm'' f)
  from pm have pm': "portfolio_map st' = [''X'' \<mapsto> 1]" by simp
  from ms have ms': "modified_symbols st' = {''X''}" by simp
  from hq have hq': "\<exists>q'. held_qty st' ''X'' = Some q' \<and> q' \<le> 0" by simp
  from pt rows' pm' ms' hq'
  have "\<exists>st' be. process_trade datetime_min ?st ?t = Inr st'
            \<and> sheet_rows st' = [header, [''X'', ''10,00000000'', ''-5,00000000'',
                                           ''2024-01-02 00:00:00'', be, ''0,00000000'']]
            \<and> portfolio_map st' = [''X'' \<mapsto> 1]
            \<and> modified_symbols st' = {''X''}
            \<and> (\<exists>q'. held_qty st' ''X'' = Some q' \<and> q' \<le> 0)"
    by blast
  with d late n s show ?thesis unfolding Let_def by blast
qed

section \<open>The side of a trade\<close>









end
